theory Spec2Isabelle
  imports Main "HOL-Library.AList"
begin

section \<open>Chunker\<close>

text \<open>
  Texts are lists of characters; \<open>length\<close> is the source's \<open>.length\<close>. A character
  stands for one code unit of the source string; the texts of the model are those whose
  code units are below 256, the range of \<open>char\<close>.
\<close>

definition isTerminator :: "char \<Rightarrow> bool" where
  "isTerminator c = (c = CHR ''.'' \<or> c = CHR ''!'' \<or> c = CHR ''?'')"

text \<open>
  The white space and line terminators that \<open>String.prototype.trim\<close> removes, within the
  8-bit range: TAB, LF, VT, FF, CR, SP and NBSP.
\<close>

definition isWhiteSpace :: "char \<Rightarrow> bool" where
  "isWhiteSpace c =
     (c = CHR 0x09 \<or> c = CHR 0x0A \<or> c = CHR 0x0B \<or> c = CHR 0x0C \<or> c = CHR 0x0D
      \<or> c = CHR 0x20 \<or> c = CHR 0xA0)"

definition trim :: "string \<Rightarrow> string" where
  "trim s = rev (dropWhile isWhiteSpace (rev (dropWhile isWhiteSpace s)))"

text \<open>
  One attempt of the regular expression \<open>[^.!?]+[.!?]+\<close> at the start of \<open>s\<close>. Both
  quantifiers are greedy and the two character classes are complementary, so the attempt
  succeeds exactly when a non-empty run of non-terminators is followed by a terminator, and
  then it takes both maximal runs. The result is the matched text and the remaining input.
\<close>

definition match_sentence :: "string \<Rightarrow> (string \<times> string) option" where
  "match_sentence s =
     (let body = takeWhile (\<lambda>c. \<not> isTerminator c) s;
          rest = dropWhile (\<lambda>c. \<not> isTerminator c) s;
          terms = takeWhile isTerminator rest
      in if body \<noteq> [] \<and> terms \<noteq> []
         then Some (body @ terms, dropWhile isTerminator rest)
         else None)"

text \<open>
  \<open>text.match(/[^.!?]+[.!?]+/g)\<close>: the matches from left to right. Where no match starts at
  the current position the scan moves one character on; after a match it continues behind
  the match. (The source's \<open>match\<close> gives \<open>null\<close> for no match at all: the empty list here.)
\<close>

function match_all :: "string \<Rightarrow> string list" where
  "match_all [] = []"
| "match_all (c # cs) =
     (case match_sentence (c # cs) of
        Some (m, r) \<Rightarrow> m # match_all r
      | None \<Rightarrow> match_all cs)"
  by pat_completeness auto
termination
proof (relation "measure length", goal_cases)
  case 1
  show ?case by simp
next
  case (2 c cs)
  show ?case by simp
next
  case (3 c cs x m r)
  let ?s = "c # cs"
  let ?rest = "dropWhile (\<lambda>c. \<not> isTerminator c) ?s"
  from 3 have "match_sentence ?s = Some (m, r)" by simp
  then have b: "takeWhile (\<lambda>c. \<not> isTerminator c) ?s \<noteq> []"
    and r: "r = dropWhile isTerminator ?rest"
    by (auto simp: match_sentence_def Let_def split: if_splits)
  have "length (takeWhile (\<lambda>c. \<not> isTerminator c) ?s) + length ?rest = length ?s"
    by (metis length_append takeWhile_dropWhile_id)
  moreover have "length r \<le> length ?rest"
    unfolding r by (rule length_dropWhile_le)
  moreover from b have "0 < length (takeWhile (\<lambda>c. \<not> isTerminator c) ?s)"
    by simp
  ultimately have "length r < length ?s" by linarith
  then show ?case by simp
qed

text \<open>The loop of \<open>chunkText\<close> over the sentences, on the pair of \<open>chunks\<close> and \<open>currentChunk\<close>.\<close>

fun chunk_loop :: "int \<Rightarrow> string list \<Rightarrow> string list \<times> string \<Rightarrow> string list \<times> string" where
  "chunk_loop maxChunkSize [] (chunks, currentChunk) = (chunks, currentChunk)"
| "chunk_loop maxChunkSize (sentence # ss) (chunks, currentChunk) =
     (if int (length (currentChunk @ sentence)) > maxChunkSize \<and> length currentChunk > 0
      then chunk_loop maxChunkSize ss (chunks @ [trim currentChunk], sentence)
      else chunk_loop maxChunkSize ss (chunks, currentChunk @ '' '' @ sentence))"

definition chunkText :: "string \<Rightarrow> int \<Rightarrow> string list" where
  "chunkText text maxChunkSize =
     (let sentences = (case match_all text of [] \<Rightarrow> [text] | ms \<Rightarrow> ms);
          (chunks, currentChunk) = chunk_loop maxChunkSize sentences ([], [])
      in if length (trim currentChunk) > 0 then chunks @ [trim currentChunk] else chunks)"


section \<open>Numbers, thrown values and stored values\<close>

text \<open>
  The numbers of the quota accounting are integers or \<open>NaN\<close> (what \<open>parseInt\<close> gives on
  a text that does not start with a number). Arithmetic and comparison with \<open>NaN\<close> follow
  the source language: the result is \<open>NaN\<close>, respectively \<open>false\<close>.

  The source computes with double-precision numbers, the model with the integers
  themselves. The two agree as long as the operands and the result are safe integers
  (of magnitude at most \<open>2^53 - 1\<close>): there every integer is a number of the source and
  its arithmetic is exact. Beyond that range the source rounds (\<open>2^53 + 1\<close> is \<open>2^53\<close>)
  and the model does not; what is proved of the value of a sum is therefore stated for
  safe integers.
\<close>

datatype jsnum = Num int | NaN

definition MAX_SAFE_INTEGER :: int where
  "MAX_SAFE_INTEGER = 9007199254740991"

definition safe_integer :: "int \<Rightarrow> bool" where
  "safe_integer x = (- MAX_SAFE_INTEGER \<le> x \<and> x \<le> MAX_SAFE_INTEGER)"

fun js_add :: "jsnum \<Rightarrow> int \<Rightarrow> jsnum" where
  "js_add (Num a) d = Num (a + d)"
| "js_add NaN d = NaN"

fun js_sub_from :: "int \<Rightarrow> jsnum \<Rightarrow> jsnum" where
  "js_sub_from m (Num a) = Num (m - a)"
| "js_sub_from m NaN = NaN"

fun js_le :: "int \<Rightarrow> jsnum \<Rightarrow> bool" where
  "js_le n (Num a) = (n \<le> a)"
| "js_le n NaN = False"

fun Math_max :: "int \<Rightarrow> jsnum \<Rightarrow> jsnum" where
  "Math_max m (Num a) = Num (max m a)"
| "Math_max m NaN = NaN"

fun digits10 :: "nat \<Rightarrow> string" where
  "digits10 n =
     (if n < 10 then [''0123456789'' ! n]
      else digits10 (n div 10) @ [''0123456789'' ! (n mod 10)])"

declare digits10.simps [simp del]

definition toString_int :: "int \<Rightarrow> string" where
  "toString_int i = (if i < 0 then CHR ''-'' # digits10 (nat (- i)) else digits10 (nat i))"

fun toString :: "jsnum \<Rightarrow> string" where
  "toString (Num i) = toString_int i"
| "toString NaN = ''NaN''"

text \<open>A thrown value is an \<open>Error\<close> with its message, or something that is no \<open>Error\<close>.\<close>

datatype thrown = Error string | NonError

text \<open>
  A document metadata record as JSON. \<open>embedAndStore\<close> writes \<open>name\<close>, \<open>type\<close>,
  \<open>chunksCount\<close>, \<open>uploadedAt\<close> and \<open>vectorIds\<close>; \<open>cleanupOldVectors\<close> reads
  \<open>uploadedAt\<close> and \<open>chunks\<close> (the \<open>id\<close> of each entry). A field that a record does not
  have is \<open>None\<close>. Time stamps are milliseconds since the epoch: an ISO string written by
  \<open>toISOString\<close> and read back by \<open>new Date(...).getTime()\<close> gives the same number.
\<close>

record DocMetadata =
  name :: string
  type :: string
  chunksCount :: int
  uploadedAt :: "int option"
  vectorIds :: "string list option"
  chunks :: "string list option"

text \<open>
  A value of the key-value store is a text. Two kinds of text are written by this code:
  the text of the vector count (\<open>newCount.toString()\<close>) and the JSON text of a
  document metadata record. \<open>NumberText n\<close> stands for the text of the number \<open>n\<close>. For
  a safe integer that text is its decimal numeral, which \<open>parseInt\<close> reads back as the
  same number; from \<open>10^21\<close> the source writes exponent notation, of which \<open>parseInt\<close>
  reads the leading digit only, and the model does not follow it there.
\<close>

datatype kv_value = NumberText jsnum | DocumentJson DocMetadata

text \<open>\<open>parseInt(text, 10)\<close>: a JSON object text starts with a brace, which is no digit.\<close>

fun parseInt :: "kv_value \<Rightarrow> jsnum" where
  "parseInt (NumberText n) = n"
| "parseInt (DocumentJson d) = NaN"

datatype json = JNumber int | JObject DocMetadata

section \<open>Environment\<close>

record EmbedMetadata =
  documentId :: string
  documentName :: string
  documentType :: string

record ChunkMetadata = EmbedMetadata +
  chunkIndex :: nat
  textIndex :: nat
  chunk :: string
  fullChunk :: string
  timestamp :: int

record VectorizeVector =
  id' :: string
  values' :: "int list"
  metadata :: "ChunkMetadata option"

datatype ai_response = InvalidResponse | Data "int list list"

record QuotaMetric =
  log_timestamp :: int
  log_count :: jsnum
  log_delta :: "int option"
  log_reason :: string

datatype kv_binding = DOC_METADATA | DOCUMENT_METADATA | CHAT_HISTORY

type_synonym namespace = "(string \<times> kv_value) list"

text \<open>
  The bindings of the worker and the world behind them. \<open>KV\<close> holds the key-value
  namespaces of the account and \<open>bound_to\<close> says which namespace each binding names, so
  that two bindings may name the same namespace. \<open>AI\<close> is what the embedding model answers
  to a list of texts. \<open>calls\<close> counts the calls of external services made so far, and
  \<open>faults\<close> decides for each call, by its number, whether it throws. \<open>now\<close> is the clock
  and \<open>console\<close> the metric records logged so far.
\<close>

record Env =
  AI :: "string list \<Rightarrow> ai_response"
  DOC_INDEX :: "VectorizeVector list"
  KV :: "nat \<Rightarrow> namespace"
  bound_to :: "kv_binding \<Rightarrow> nat"
  faults :: "nat \<Rightarrow> thrown option"
  calls :: nat
  now :: int
  console :: "QuotaMetric list"

type_synonym 'a io = "Env \<Rightarrow> (thrown + 'a) \<times> Env"

definition io_return :: "'a \<Rightarrow> 'a io" where
  "io_return x = (\<lambda>e. (Inr x, e))"

definition io_throw :: "thrown \<Rightarrow> 'a io" where
  "io_throw ex = (\<lambda>e. (Inl ex, e))"

definition io_bind :: "'a io \<Rightarrow> ('a \<Rightarrow> 'b io) \<Rightarrow> 'b io" where
  "io_bind m f = (\<lambda>e. case m e of (Inl ex, e') \<Rightarrow> (Inl ex, e') | (Inr x, e') \<Rightarrow> f x e')"

text \<open>\<open>try { m } catch (error) { h error }\<close>\<close>

definition io_catch :: "'a io \<Rightarrow> (thrown \<Rightarrow> 'a io) \<Rightarrow> 'a io" where
  "io_catch m h = (\<lambda>e. case m e of (Inl ex, e') \<Rightarrow> h ex e' | (Inr x, e') \<Rightarrow> (Inr x, e'))"

definition next_fault :: "Env \<Rightarrow> thrown option" where
  "next_fault e = faults e (calls e)"

definition consume :: "Env \<Rightarrow> Env" where
  "consume e = e\<lparr>calls := Suc (calls e)\<rparr>"

text \<open>
  A call of an external service (key-value store, vector index, embedding model): it
  throws, and then has had no effect on the stores, or it acts.
\<close>

definition external :: "'a io \<Rightarrow> 'a io" where
  "external act = (\<lambda>e. case next_fault e of
       Some ex \<Rightarrow> (Inl ex, consume e)
     | None \<Rightarrow> act (consume e))"

definition kv_lookup :: "Env \<Rightarrow> kv_binding \<Rightarrow> string \<Rightarrow> kv_value option" where
  "kv_lookup e b key = map_of (KV e (bound_to e b)) key"

definition kv_get :: "kv_binding \<Rightarrow> string \<Rightarrow> kv_value option io" where
  "kv_get b key = external (\<lambda>e. (Inr (kv_lookup e b key), e))"

text \<open>
  \<open>get(key, 'json')\<close>: the stored text parsed as JSON. The text \<open>NaN\<close> is no JSON, and
  \<open>JSON.parse\<close> throws a \<open>SyntaxError\<close> on it.
\<close>

definition kv_get_json :: "kv_binding \<Rightarrow> string \<Rightarrow> json option io" where
  "kv_get_json b key = io_bind (kv_get b key) (\<lambda>v.
     case v of
       None \<Rightarrow> io_return None
     | Some (NumberText (Num n)) \<Rightarrow> io_return (Some (JNumber n))
     | Some (NumberText NaN) \<Rightarrow> io_throw (Error ''Unexpected token N in JSON at position 0'')
     | Some (DocumentJson d) \<Rightarrow> io_return (Some (JObject d)))"

definition kv_put :: "kv_binding \<Rightarrow> string \<Rightarrow> kv_value \<Rightarrow> unit io" where
  "kv_put b key v = external (\<lambda>e.
     (Inr (), e\<lparr>KV := (KV e)(bound_to e b := AList.update key v (KV e (bound_to e b)))\<rparr>))"

definition kv_delete :: "kv_binding \<Rightarrow> string \<Rightarrow> unit io" where
  "kv_delete b key = external (\<lambda>e.
     (Inr (), e\<lparr>KV := (KV e)(bound_to e b := AList.delete key (KV e (bound_to e b)))\<rparr>))"

text \<open>\<open>list()\<close>: the names of all keys of the namespace, in the order of the store.\<close>

definition kv_list :: "kv_binding \<Rightarrow> string list io" where
  "kv_list b = external (\<lambda>e. (Inr (map fst (KV e (bound_to e b))), e))"

text \<open>An upsert replaces the stored vectors that have one of the given ids.\<close>

definition upsert :: "VectorizeVector list \<Rightarrow> VectorizeVector list \<Rightarrow> VectorizeVector list" where
  "upsert vectors index = filter (\<lambda>v. id' v \<notin> set (map id' vectors)) index @ vectors"

definition index_upsert :: "VectorizeVector list \<Rightarrow> unit io" where
  "index_upsert vectors = external (\<lambda>e.
     (Inr (), e\<lparr>DOC_INDEX := upsert vectors (DOC_INDEX e)\<rparr>))"

definition index_deleteByIds :: "string list \<Rightarrow> unit io" where
  "index_deleteByIds ids = external (\<lambda>e.
     (Inr (), e\<lparr>DOC_INDEX := filter (\<lambda>v. id' v \<notin> set ids) (DOC_INDEX e)\<rparr>))"

definition ai_run :: "string list \<Rightarrow> ai_response io" where
  "ai_run texts = external (\<lambda>e. (Inr (AI e texts), e))"

section \<open>Quota tracker\<close>

definition MAX_VECTORS :: int where
  "MAX_VECTORS = 100"

definition VECTOR_COUNT_KEY :: string where
  "VECTOR_COUNT_KEY = ''__vector_count__''"

definition getVectorCount :: "jsnum io" where
  "getVectorCount = io_bind (kv_get DOC_METADATA VECTOR_COUNT_KEY) (\<lambda>count.
     io_return (case count of Some text \<Rightarrow> parseInt text | None \<Rightarrow> Num 0))"

definition updateVectorCount :: "int \<Rightarrow> jsnum io" where
  "updateVectorCount delta = io_bind getVectorCount (\<lambda>currentCount.
     let newCount = Math_max 0 (js_add currentCount delta)
     in io_bind (kv_put DOC_METADATA VECTOR_COUNT_KEY (NumberText newCount)) (\<lambda>_.
        io_return newCount))"

record QuotaCheck =
  allowed :: bool
  currentCount :: jsnum
  availableQuota :: jsnum

definition checkVectorQuota :: "int \<Rightarrow> QuotaCheck io" where
  "checkVectorQuota requiredVectors = io_bind getVectorCount (\<lambda>currentCount.
     let availableQuota = js_sub_from MAX_VECTORS currentCount;
         allowed = js_le requiredVectors availableQuota
     in io_return \<lparr>allowed = allowed, currentCount = currentCount,
                    availableQuota = availableQuota\<rparr>)"

text \<open>
  \<open>emitQuotaMetric\<close> logs one record. Its \<open>percentUsed\<close> field is a floating-point
  quotient and is left out of the record.
\<close>

definition emitQuotaMetric :: "jsnum \<Rightarrow> int option \<Rightarrow> string \<Rightarrow> unit io" where
  "emitQuotaMetric count delta reason = (\<lambda>e.
     (Inr (), e\<lparr>console := console e @
        [\<lparr>log_timestamp = now e, log_count = count, log_delta = delta,
          log_reason = reason\<rparr>]\<rparr>))"

section \<open>Ingestion pipeline\<close>

datatype EmbedResponse = Success "string list" | Failure string

text \<open>
  The two nested \<open>forEach\<close> loops of \<open>embedAndStore\<close>: every chunk of every text, in
  order, with the metadata built for it.
\<close>

definition chunk_entries :: "string list \<Rightarrow> EmbedMetadata \<Rightarrow> int \<Rightarrow> (string \<times> ChunkMetadata) list" where
  "chunk_entries texts md ts =
     concat (map (\<lambda>(textIndex, text).
       map (\<lambda>(chunkIndex, chunk).
              (chunk, EmbedMetadata.extend md
                 (ChunkMetadata.fields chunkIndex textIndex (take 200 chunk) chunk ts)))
           (enumerate 0 (chunkText text 1000)))
       (enumerate 0 texts))"

definition make_vectors :: "EmbedMetadata \<Rightarrow> int \<Rightarrow> ChunkMetadata list \<Rightarrow> int list list \<Rightarrow> VectorizeVector list" where
  "make_vectors md ts chunkMetadata data =
     map (\<lambda>(idx, embedding).
            \<lparr>id' = documentId md @ ''-'' @ toString_int ts @ ''-'' @ toString_int (int idx),
             values' = embedding,
             metadata = (if idx < length chunkMetadata then Some (chunkMetadata ! idx) else None)\<rparr>)
         (enumerate 0 data)"

definition quota_error :: "QuotaCheck \<Rightarrow> int \<Rightarrow> string" where
  "quota_error quotaCheck requested =
     ''Vector limit exceeded. Current count: '' @ toString (currentCount quotaCheck) @ ''/''
       @ toString_int MAX_VECTORS @ ''. Requested: '' @ toString_int requested
       @ ''. Available quota: '' @ toString (availableQuota quotaCheck)"

text \<open>The \<open>try\<close> block of \<open>embedAndStore\<close>.\<close>

definition embedAndStore_try :: "string list \<Rightarrow> EmbedMetadata \<Rightarrow> EmbedResponse io" where
  "embedAndStore_try texts md = (\<lambda>e0.
     (let entries = chunk_entries texts md (now e0);
          allChunks = map fst entries;
          chunkMetadata = map snd entries
      in io_bind (checkVectorQuota (int (length allChunks))) (\<lambda>quotaCheck.
           if \<not> allowed quotaCheck then
             io_bind (emitQuotaMetric (currentCount quotaCheck) (Some 0)
                        (''quota_denied_requested_'' @ toString_int (int (length allChunks)))) (\<lambda>_.
             io_return (Failure (quota_error quotaCheck (int (length allChunks)))))
           else
             io_bind (ai_run allChunks) (\<lambda>embedResponse.
               case embedResponse of
                 InvalidResponse \<Rightarrow> io_throw (Error ''Invalid embedding response'')
               | Data data \<Rightarrow>
                   (let vectors = make_vectors md (now e0) chunkMetadata data
                    in io_bind (index_upsert vectors) (\<lambda>_.
                       io_bind (updateVectorCount (int (length vectors))) (\<lambda>newCount.
                       io_bind (emitQuotaMetric newCount (Some (int (length vectors)))
                                  (''upsert_document_'' @ documentId md)) (\<lambda>_.
                       io_bind (kv_put DOC_METADATA (documentId md)
                                  (DocumentJson \<lparr>name = documentName md, type = documentType md,
                                     chunksCount = int (length vectors),
                                     uploadedAt = Some (now e0),
                                     vectorIds = Some (map id' vectors),
                                     chunks = None\<rparr>)) (\<lambda>_.
                       io_return (Success (map id' vectors))))))))))
     e0)"

definition error_message :: "thrown \<Rightarrow> string \<Rightarrow> string" where
  "error_message error fallback = (case error of Error message \<Rightarrow> message | NonError \<Rightarrow> fallback)"

definition embedAndStore :: "string list \<Rightarrow> EmbedMetadata \<Rightarrow> EmbedResponse io" where
  "embedAndStore texts md =
     io_catch (embedAndStore_try texts md) (\<lambda>error.
       io_return (Failure (error_message error ''Failed to embed and store documents'')))"

section \<open>Deletion pipeline\<close>

record DeleteResult =
  success :: bool
  deletedCount :: int
  error :: "string option"

text \<open>
  \<open>!metadata || !metadata.vectorIds\<close> holds for no value, for a number and for a record
  without the field; an empty list is a list (it is truthy).
\<close>

fun json_vectorIds :: "json option \<Rightarrow> string list option" where
  "json_vectorIds (Some (JObject d)) = vectorIds d"
| "json_vectorIds _ = None"

definition deleteDocumentVectors :: "string \<Rightarrow> DeleteResult io" where
  "deleteDocumentVectors docId =
     io_catch
       (io_bind (kv_get_json DOC_METADATA docId) (\<lambda>md.
          case json_vectorIds md of
            None \<Rightarrow> io_return \<lparr>success = True, deletedCount = 0, error = None\<rparr>
          | Some ids \<Rightarrow>
              io_bind (index_deleteByIds ids) (\<lambda>_.
              io_bind (updateVectorCount (- int (length ids))) (\<lambda>newCount.
              io_bind (emitQuotaMetric newCount (Some (- int (length ids)))
                         (''delete_document_'' @ docId)) (\<lambda>_.
              io_bind (kv_delete DOC_METADATA docId) (\<lambda>_.
              io_return \<lparr>success = True, deletedCount = int (length ids), error = None\<rparr>))))))
       (\<lambda>err. io_return \<lparr>success = False, deletedCount = 0,
                  error = Some (error_message err ''Failed to delete document vectors'')\<rparr>)"

section \<open>Cleanup scheduler\<close>

text \<open>\<open>metadata && metadata.uploadedAt\<close>, and \<open>metadata.chunks?.map(chunk => chunk.id) || []\<close>.\<close>

fun json_uploadedAt :: "json option \<Rightarrow> int option" where
  "json_uploadedAt (Some (JObject d)) = uploadedAt d"
| "json_uploadedAt _ = None"

fun json_chunk_ids :: "json option \<Rightarrow> string list" where
  "json_chunk_ids (Some (JObject d)) = (case chunks d of Some ids \<Rightarrow> ids | None \<Rightarrow> [])"
| "json_chunk_ids _ = []"

text \<open>
  The body of the \<open>for\<close> loop, for one key. The variable \<open>deletedCount\<close> of the source
  (\<open>deleted\<close> here) is passed in and its value is returned beside the outcome, since the
  enclosing \<open>catch\<close> returns what the variable holds when a call throws. The inner
  \<open>try\<close> adds to the variable as soon as
  \<open>deleteByIds\<close> has returned, before \<open>updateVectorCount\<close> runs; its \<open>catch\<close> only logs.
\<close>

definition cleanup_document :: "int \<Rightarrow> string \<Rightarrow> int \<Rightarrow> Env \<Rightarrow> ((thrown + unit) \<times> int) \<times> Env" where
  "cleanup_document cutoffTimestamp key deleted e =
     (case kv_get_json DOCUMENT_METADATA key e of
        (Inl ex, e1) \<Rightarrow> ((Inl ex, deleted), e1)
      | (Inr md, e1) \<Rightarrow>
          (case json_uploadedAt md of
             None \<Rightarrow> ((Inr (), deleted), e1)
           | Some uploadTimestamp \<Rightarrow>
               if uploadTimestamp < cutoffTimestamp then
                 (let ids = json_chunk_ids md;
                      (deleted', e2) =
                        (if length ids > 0 then
                           (case index_deleteByIds ids e1 of
                              (Inl ex, e2) \<Rightarrow> (deleted, e2)
                            | (Inr u, e2) \<Rightarrow>
                                (deleted + int (length ids),
                                 snd (updateVectorCount (- int (length ids)) e2)))
                         else (deleted, e1))
                  in (case kv_delete DOCUMENT_METADATA key e2 of
                        (r, e3) \<Rightarrow> ((r, deleted'), e3)))
               else ((Inr (), deleted), e1)))"

fun cleanup_loop :: "int \<Rightarrow> string list \<Rightarrow> int \<Rightarrow> Env \<Rightarrow> int \<times> Env" where
  "cleanup_loop cutoffTimestamp [] deleted e = (deleted, e)"
| "cleanup_loop cutoffTimestamp (key # keys) deleted e =
     (case cleanup_document cutoffTimestamp key deleted e of
        ((Inl ex, deleted'), e') \<Rightarrow> (deleted', e')
      | ((Inr u, deleted'), e') \<Rightarrow> cleanup_loop cutoffTimestamp keys deleted' e')"

text \<open>
  The cutoff is the clock moved back by \<open>maxAgeInDays\<close> calendar days, of 86400000
  milliseconds each (the worker's local time is UTC).
\<close>

definition cleanupOldVectors :: "int \<Rightarrow> Env \<Rightarrow> int \<times> Env" where
  "cleanupOldVectors maxAgeInDays e =
     (let cutoffTimestamp = now e - maxAgeInDays * 86400000
      in case kv_list DOCUMENT_METADATA e of
           (Inl ex, e1) \<Rightarrow> (0, e1)
         | (Inr keys, e1) \<Rightarrow> cleanup_loop cutoffTimestamp keys 0 e1)"

section \<open>Observations of the stores\<close>

text \<open>
  What \<open>getVectorCount\<close> reads from the store when its call does not throw: the stored
  text parsed as a number, and 0 when the key is absent.
\<close>

definition stored_count :: "Env \<Rightarrow> jsnum" where
  "stored_count e =
     (case kv_lookup e DOC_METADATA VECTOR_COUNT_KEY of
        Some text \<Rightarrow> parseInt text
      | None \<Rightarrow> Num 0)"

fun is_nonneg :: "jsnum \<Rightarrow> bool" where
  "is_nonneg (Num a) = (0 \<le> a)"
| "is_nonneg NaN = False"

text \<open>
  A caller that applies a sequence of adjustments, one \<open>updateVectorCount\<close> after the
  other, and collects the values returned (a call that throws returns none).
\<close>

fun adjust_all :: "int list \<Rightarrow> Env \<Rightarrow> jsnum list \<times> Env" where
  "adjust_all [] e = ([], e)"
| "adjust_all (d # ds) e =
     (case updateVectorCount d e of
        (r, e1) \<Rightarrow>
          (case adjust_all ds e1 of
             (vs, e2) \<Rightarrow> ((case r of Inr v \<Rightarrow> [v] | Inl ex \<Rightarrow> []) @ vs, e2)))"

text \<open>The store after the three kinds of write that the pipelines make.\<close>

definition put_count :: "jsnum \<Rightarrow> Env \<Rightarrow> Env" where
  "put_count v e =
     e\<lparr>KV := (KV e)(bound_to e DOC_METADATA :=
         AList.update VECTOR_COUNT_KEY (NumberText v) (KV e (bound_to e DOC_METADATA)))\<rparr>"

definition put_document :: "string \<Rightarrow> DocMetadata \<Rightarrow> Env \<Rightarrow> Env" where
  "put_document key d e =
     e\<lparr>KV := (KV e)(bound_to e DOC_METADATA :=
         AList.update key (DocumentJson d) (KV e (bound_to e DOC_METADATA)))\<rparr>"

definition remove_key :: "kv_binding \<Rightarrow> string \<Rightarrow> Env \<Rightarrow> Env" where
  "remove_key b key e =
     e\<lparr>KV := (KV e)(bound_to e b := AList.delete key (KV e (bound_to e b)))\<rparr>"

text \<open>The values that \<open>embedAndStore\<close> computes from its arguments and the clock.\<close>

abbreviation allChunks_of :: "string list \<Rightarrow> EmbedMetadata \<Rightarrow> Env \<Rightarrow> string list" where
  "allChunks_of texts md e \<equiv> map fst (chunk_entries texts md (now e))"

abbreviation requested :: "string list \<Rightarrow> EmbedMetadata \<Rightarrow> Env \<Rightarrow> int" where
  "requested texts md e \<equiv> int (length (chunk_entries texts md (now e)))"

abbreviation vectors_of :: "string list \<Rightarrow> EmbedMetadata \<Rightarrow> Env \<Rightarrow> int list list \<Rightarrow> VectorizeVector list" where
  "vectors_of texts md e data \<equiv>
     make_vectors md (now e) (map snd (chunk_entries texts md (now e))) data"

abbreviation admitted :: "string list \<Rightarrow> EmbedMetadata \<Rightarrow> Env \<Rightarrow> bool" where
  "admitted texts md e \<equiv>
     js_le (requested texts md e) (js_sub_from MAX_VECTORS (stored_count e))"

abbreviation document_of :: "string list \<Rightarrow> EmbedMetadata \<Rightarrow> Env \<Rightarrow> int list list \<Rightarrow> DocMetadata" where
  "document_of texts md e data \<equiv>
     \<lparr>name = documentName md, type = documentType md,
      chunksCount = int (length data), uploadedAt = Some (now e),
      vectorIds = Some (map id' (vectors_of texts md e data)), chunks = None\<rparr>"

text \<open>A text without its white space: the coarsest comparison of texts up to white space.\<close>

definition strip_whitespace :: "string \<Rightarrow> string" where
  "strip_whitespace s = filter (\<lambda>c. \<not> isWhiteSpace c) s"

section \<open>Example environments\<close>

text \<open>
  Empty stores, one embedding per text, no call throws. In \<open>env_shared\<close> every binding
  names the same namespace; in \<open>env_separate\<close> each binding has its own.
\<close>

definition env_shared :: Env where
  "env_shared =
     \<lparr>AI = (\<lambda>texts. Data (map (\<lambda>t. [0]) texts)), DOC_INDEX = [],
      KV = (\<lambda>ns. []), bound_to = (\<lambda>b. 0), faults = (\<lambda>k. None), calls = 0,
      now = 1000, console = []\<rparr>"

definition env_separate :: Env where
  "env_separate =
     env_shared\<lparr>bound_to :=
       (\<lambda>b. case b of DOC_METADATA \<Rightarrow> 0 | DOCUMENT_METADATA \<Rightarrow> 1 | CHAT_HISTORY \<Rightarrow> 2)\<rparr>"

definition env_count :: "int \<Rightarrow> Env" where
  "env_count c = env_shared\<lparr>KV := (\<lambda>ns. [(VECTOR_COUNT_KEY, NumberText (Num c))])\<rparr>"

definition doc1 :: EmbedMetadata where
  "doc1 = \<lparr>documentId = ''doc1'', documentName = ''Notes'', documentType = ''text''\<rparr>"

text \<open>A document whose id is the key of the counter.\<close>

definition doc_reserved :: EmbedMetadata where
  "doc_reserved = doc1\<lparr>documentId := VECTOR_COUNT_KEY\<rparr>"

definition forty_days_later :: "Env \<Rightarrow> Env" where
  "forty_days_later e = e\<lparr>now := now e + 40 * 86400000\<rparr>"

text \<open>The environment forty days after the ingestion of one document.\<close>

definition ingested :: "Env \<Rightarrow> Env" where
  "ingested e = forty_days_later (snd (embedAndStore [''Old text.''] doc1 e))"

text \<open>The call with the given number throws.\<close>

definition failing_at :: "nat \<Rightarrow> Env \<Rightarrow> Env" where
  "failing_at k e =
     e\<lparr>faults := (\<lambda>i. if i = k then Some (Error ''store unavailable'') else None)\<rparr>"

text \<open>The embedding model answers with an invalid shape.\<close>

definition env_invalid :: Env where
  "env_invalid = (env_count 85)\<lparr>AI := (\<lambda>texts. InvalidResponse)\<rparr>"

text \<open>A record of the shape that \<open>cleanupOldVectors\<close> reads, uploaded at time 0.\<close>

definition old_record :: DocMetadata where
  "old_record =
     \<lparr>name = ''Old'', type = ''text'', chunksCount = 2, uploadedAt = Some 0,
      vectorIds = None, chunks = Some [''old-0'', ''old-1'']\<rparr>"

definition env_old :: Env where
  "env_old =
     env_shared\<lparr>KV := (\<lambda>ns. [(''old'', DocumentJson old_record)]),
       DOC_INDEX := [\<lparr>id' = ''old-0'', values' = [0], metadata = None\<rparr>,
                     \<lparr>id' = ''old-1'', values' = [0], metadata = None\<rparr>],
       now := 40 * 86400000\<rparr>"

section \<open>The chunker\<close>

lemma strip_dropWhile: "strip_whitespace (dropWhile isWhiteSpace s) = strip_whitespace s"
  by (induction s) (simp_all add: strip_whitespace_def)

lemma strip_rev: "strip_whitespace (rev s) = rev (strip_whitespace s)"
  by (simp add: strip_whitespace_def rev_filter)

lemma strip_trim: "strip_whitespace (trim s) = strip_whitespace s"
  by (simp add: trim_def strip_rev strip_dropWhile)

lemma strip_append: "strip_whitespace (xs @ ys) = strip_whitespace xs @ strip_whitespace ys"
  by (simp add: strip_whitespace_def)

lemma strip_space: "strip_whitespace (CHR '' '' # s) = strip_whitespace s"
  by (simp add: strip_whitespace_def isWhiteSpace_def)

lemma chunk_loop_keeps:
  "strip_whitespace (concat (fst (chunk_loop m ss (acc, cur))))
     @ strip_whitespace (snd (chunk_loop m ss (acc, cur)))
   = strip_whitespace (concat acc) @ strip_whitespace cur @ strip_whitespace (concat ss)"
proof (induction ss arbitrary: acc cur)
  case Nil
  show ?case by (simp add: strip_whitespace_def)
next
  case (Cons s ss)
  show ?case
    by (simp add: Cons.IH strip_append strip_trim strip_space)
qed

text \<open>
  Up to white space, the chunks are the sentences: what the chunker loses of a text is
  what the sentence pattern does not match.
\<close>

lemma chunkText_keeps_sentences:
  "strip_whitespace (concat (chunkText text m))
   = strip_whitespace (concat (case match_all text of [] \<Rightarrow> [text] | ms \<Rightarrow> ms))"
proof -
  let ?ss = "case match_all text of [] \<Rightarrow> [text] | ms \<Rightarrow> ms"
  obtain acc cur where l: "chunk_loop m ?ss ([], []) = (acc, cur)"
    by (cases "chunk_loop m ?ss ([], [])")
  from chunk_loop_keeps [of m ?ss "[]" "[]"] l
  have k: "strip_whitespace (concat acc) @ strip_whitespace cur = strip_whitespace (concat ?ss)"
    by (simp add: strip_whitespace_def)
  have t: "strip_whitespace (trim cur) = strip_whitespace cur" by (rule strip_trim)
  show ?thesis
  proof (cases "trim cur = []")
    case True
    with t have "strip_whitespace cur = []" by (simp add: strip_whitespace_def)
    with k True l show ?thesis by (simp add: chunkText_def strip_append)
  next
    case False
    with k t l show ?thesis by (simp add: chunkText_def strip_append)
  qed
qed

text \<open>
  Three sentences of equal length \<open>n\<close> with no white space between them, chunked with the
  maximum \<open>2 * n\<close>: the second chunk joins two sentences and has length \<open>2 * n + 1\<close>.
  With \<open>k = 498\<close> the sentences have 500 characters and the maximum is the default 1000.
\<close>

lemma match_sentence_run:
  assumes "rest = [] \<or> \<not> isTerminator (hd rest)"
  shows "match_sentence (replicate (Suc k) CHR ''a'' @ ''.'' @ rest)
         = Some (replicate (Suc k) CHR ''a'' @ ''.'', rest)"
proof -
  have a: "\<And>x. x \<in> set (replicate (Suc k) CHR ''a'') \<Longrightarrow> \<not> isTerminator x"
    by (auto simp: isTerminator_def)
  have t: "takeWhile (\<lambda>c. \<not> isTerminator c) (replicate (Suc k) CHR ''a'' @ ''.'' @ rest)
           = replicate (Suc k) CHR ''a''"
    using a by (subst takeWhile_append2) (simp_all add: isTerminator_def)
  have d: "dropWhile (\<lambda>c. \<not> isTerminator c) (replicate (Suc k) CHR ''a'' @ ''.'' @ rest)
           = ''.'' @ rest"
    using a by (subst dropWhile_append2) (simp_all add: isTerminator_def)
  from assms have r: "takeWhile isTerminator rest = []" "dropWhile isTerminator rest = rest"
    by (cases rest; simp)+
  show ?thesis
    unfolding match_sentence_def Let_def t d
    using r by (simp add: isTerminator_def)
qed

lemma match_all_run:
  assumes "rest = [] \<or> \<not> isTerminator (hd rest)"
  shows "match_all (replicate (Suc k) CHR ''a'' @ ''.'' @ rest)
         = (replicate (Suc k) CHR ''a'' @ ''.'') # match_all rest"
proof -
  have "match_all (CHR ''a'' # (replicate k CHR ''a'' @ ''.'' @ rest))
        = (replicate (Suc k) CHR ''a'' @ ''.'') # match_all rest"
    using match_sentence_run [OF assms, of k] by (subst match_all.simps) simp
  then show ?thesis by simp
qed

lemma trim_run:
  "trim (replicate (Suc k) CHR ''a'' @ mid @ ''.'') = replicate (Suc k) CHR ''a'' @ mid @ ''.''"
  by (simp add: trim_def isWhiteSpace_def)

lemma chunkText_three_sentences:
  fixes k :: nat
  defines "s \<equiv> replicate (Suc k) CHR ''a'' @ ''.''"
  shows "match_all (s @ s @ s) = [s, s, s]
       \<and> chunkText (s @ s @ s) (2 * int (length s)) = [s, s @ '' '' @ s]
       \<and> int (length (s @ '' '' @ s)) = 2 * int (length s) + 1"
proof -
  have h: "\<not> isTerminator (hd s)" by (simp add: s_def isTerminator_def)
  have m: "match_all (s @ s @ s) = [s, s, s]"
    using match_all_run [of "s @ s" k] match_all_run [of s k] match_all_run [of "[]" k] h
    by (simp add: s_def)
  have t1: "trim (CHR '' '' # s) = s"
    using trim_run [of k "[]"] by (simp add: s_def trim_def isWhiteSpace_def)
  have t2: "trim (s @ '' '' @ s) = s @ '' '' @ s"
    using trim_run [of k "''.'' @ '' '' @ replicate (Suc k) CHR ''a''"] by (simp add: s_def)
  have l: "length s = Suc (Suc k)" by (simp add: s_def)
  have loop: "chunk_loop (2 * int (length s)) [s, s, s] ([], []) = ([s], s @ '' '' @ s)"
    by (simp add: l t1)
  show ?thesis
    using m loop t2 l by (simp add: chunkText_def)
qed

section \<open>The calls, step by step\<close>

lemmas io_defs = io_bind_def io_return_def io_throw_def io_catch_def

lemma external_ok:
  "faults e (calls e) = None \<Longrightarrow> external act e = act (e\<lparr>calls := Suc (calls e)\<rparr>)"
  by (simp add: external_def next_fault_def consume_def)

lemma external_fault:
  "faults e (calls e) = Some ex \<Longrightarrow> external act e = (Inl ex, e\<lparr>calls := Suc (calls e)\<rparr>)"
  by (simp add: external_def next_fault_def consume_def)

lemma kv_lookup_update [simp]:
  "kv_lookup (e\<lparr>calls := c\<rparr>) = kv_lookup e"
  "kv_lookup (e\<lparr>DOC_INDEX := ix\<rparr>) = kv_lookup e"
  "kv_lookup (e\<lparr>console := l\<rparr>) = kv_lookup e"
  "kv_lookup (e\<lparr>now := t\<rparr>) = kv_lookup e"
  "kv_lookup (e\<lparr>faults := f\<rparr>) = kv_lookup e"
  "kv_lookup (e\<lparr>AI := a\<rparr>) = kv_lookup e"
  by (simp_all add: kv_lookup_def fun_eq_iff)

lemma stored_count_update [simp]:
  "stored_count (e\<lparr>calls := c\<rparr>) = stored_count e"
  "stored_count (e\<lparr>DOC_INDEX := ix\<rparr>) = stored_count e"
  "stored_count (e\<lparr>console := l\<rparr>) = stored_count e"
  "stored_count (e\<lparr>now := t\<rparr>) = stored_count e"
  "stored_count (e\<lparr>faults := f\<rparr>) = stored_count e"
  "stored_count (e\<lparr>AI := a\<rparr>) = stored_count e"
  by (simp_all add: stored_count_def)

lemma put_count_simps [simp]:
  "faults (put_count v e) = faults e" "calls (put_count v e) = calls e"
  "DOC_INDEX (put_count v e) = DOC_INDEX e" "now (put_count v e) = now e"
  "console (put_count v e) = console e" "bound_to (put_count v e) = bound_to e"
  "AI (put_count v e) = AI e"
  by (simp_all add: put_count_def)

lemma stored_count_put_count [simp]: "stored_count (put_count v e) = v"
  by (simp add: stored_count_def put_count_def kv_lookup_def update_conv')

lemma kv_lookup_put_document:
  "kv_lookup (put_document key d e) DOC_METADATA key = Some (DocumentJson d)"
  by (simp add: put_document_def kv_lookup_def update_conv')

lemma stored_count_put_document:
  "key \<noteq> VECTOR_COUNT_KEY \<Longrightarrow> stored_count (put_document key d e) = stored_count e"
  by (simp add: put_document_def stored_count_def kv_lookup_def update_conv')

lemma stored_count_remove_key:
  "key \<noteq> VECTOR_COUNT_KEY \<Longrightarrow> stored_count (remove_key b key e) = stored_count e"
  by (simp add: remove_key_def stored_count_def kv_lookup_def delete_conv')

lemma stored_count_cong:
  "KV e2 = KV e1 \<Longrightarrow> bound_to e2 = bound_to e1 \<Longrightarrow> stored_count e2 = stored_count e1"
  by (simp add: stored_count_def kv_lookup_def)

lemma kv_lookup_cong:
  "KV e2 = KV e1 \<Longrightarrow> bound_to e2 = bound_to e1 \<Longrightarrow> kv_lookup e2 = kv_lookup e1"
  by (simp add: kv_lookup_def fun_eq_iff)

lemma kv_lookup_remove_key:
  "kv_lookup (remove_key b key e) b key = None"
  by (simp add: remove_key_def kv_lookup_def delete_conv')

lemma length_make_vectors [simp]: "length (make_vectors md ts cm data) = length data"
  by (simp add: make_vectors_def)

subsection \<open>Quota tracker\<close>

lemma getVectorCount_ok:
  "faults e (calls e) = None \<Longrightarrow>
   getVectorCount e = (Inr (stored_count e), e\<lparr>calls := Suc (calls e)\<rparr>)"
  by (simp add: getVectorCount_def kv_get_def external_ok io_bind_def io_return_def
      stored_count_def kv_lookup_def)

lemma getVectorCount_fault:
  "faults e (calls e) = Some ex \<Longrightarrow>
   getVectorCount e = (Inl ex, e\<lparr>calls := Suc (calls e)\<rparr>)"
  by (simp add: getVectorCount_def kv_get_def external_fault io_bind_def)

lemma checkVectorQuota_ok:
  "faults e (calls e) = None \<Longrightarrow>
   checkVectorQuota n e =
     (Inr \<lparr>allowed = js_le n (js_sub_from MAX_VECTORS (stored_count e)),
           currentCount = stored_count e,
           availableQuota = js_sub_from MAX_VECTORS (stored_count e)\<rparr>,
      e\<lparr>calls := Suc (calls e)\<rparr>)"
  by (simp add: checkVectorQuota_def getVectorCount_ok io_bind_def io_return_def Let_def)

lemma checkVectorQuota_fault:
  "faults e (calls e) = Some ex \<Longrightarrow>
   checkVectorQuota n e = (Inl ex, e\<lparr>calls := Suc (calls e)\<rparr>)"
  by (simp add: checkVectorQuota_def getVectorCount_fault io_bind_def)

lemma updateVectorCount_ok:
  "faults e (calls e) = None \<Longrightarrow> faults e (Suc (calls e)) = None \<Longrightarrow>
   updateVectorCount d e =
     (Inr (Math_max 0 (js_add (stored_count e) d)),
      put_count (Math_max 0 (js_add (stored_count e) d)) (e\<lparr>calls := Suc (Suc (calls e))\<rparr>))"
  by (simp add: updateVectorCount_def getVectorCount_ok io_bind_def io_return_def Let_def
      kv_put_def external_ok put_count_def)

lemma updateVectorCount_fault1:
  "faults e (calls e) = Some ex \<Longrightarrow>
   updateVectorCount d e = (Inl ex, e\<lparr>calls := Suc (calls e)\<rparr>)"
  by (simp add: updateVectorCount_def getVectorCount_fault io_bind_def)

lemma updateVectorCount_fault2:
  "faults e (calls e) = None \<Longrightarrow> faults e (Suc (calls e)) = Some ex \<Longrightarrow>
   updateVectorCount d e = (Inl ex, e\<lparr>calls := Suc (Suc (calls e))\<rparr>)"
  by (simp add: updateVectorCount_def getVectorCount_ok io_bind_def io_return_def Let_def
      kv_put_def external_fault)

lemma updateVectorCount_nonneg:
  assumes "is_nonneg (stored_count e)"
  shows "is_nonneg (stored_count (snd (updateVectorCount d e)))
       \<and> (\<forall>v. fst (updateVectorCount d e) = Inr v \<longrightarrow> is_nonneg v)"
proof (cases "faults e (calls e)")
  case (Some ex)
  then show ?thesis using assms
    by (simp add: updateVectorCount_fault1 stored_count_def kv_lookup_def)
next
  case None
  obtain c where c: "stored_count e = Num c"
    using assms by (cases "stored_count e") auto
  show ?thesis
  proof (cases "faults e (Suc (calls e))")
    case (Some ex)
    with None assms show ?thesis
      by (simp add: updateVectorCount_fault2 stored_count_def kv_lookup_def)
  next
    case n2: None
    with None c show ?thesis
      by (simp add: updateVectorCount_ok)
  qed
qed

lemma adjust_all_nonneg:
  "is_nonneg (stored_count e) \<Longrightarrow>
   (\<forall>v \<in> set (fst (adjust_all ds e)). is_nonneg v) \<and> is_nonneg (stored_count (snd (adjust_all ds e)))"
proof (induction ds arbitrary: e)
  case Nil
  then show ?case by simp
next
  case (Cons d ds)
  obtain r e1 where u: "updateVectorCount d e = (r, e1)" by (cases "updateVectorCount d e")
  from updateVectorCount_nonneg [OF Cons.prems, of d] u
  have e1: "is_nonneg (stored_count e1)" and r: "\<And>v. r = Inr v \<Longrightarrow> is_nonneg v"
    by auto
  from Cons.IH [OF e1] r u show ?case
    by (auto split: prod.splits sum.splits)
qed

subsection \<open>Stores and model\<close>

lemma ai_run_ok:
  "faults e (calls e) = None \<Longrightarrow> ai_run ts e = (Inr (AI e ts), e\<lparr>calls := Suc (calls e)\<rparr>)"
  by (simp add: ai_run_def external_ok)

lemma ai_run_fault:
  "faults e (calls e) = Some ex \<Longrightarrow> ai_run ts e = (Inl ex, e\<lparr>calls := Suc (calls e)\<rparr>)"
  by (simp add: ai_run_def external_fault)

lemma index_upsert_ok:
  "faults e (calls e) = None \<Longrightarrow>
   index_upsert vs e = (Inr (), e\<lparr>calls := Suc (calls e), DOC_INDEX := upsert vs (DOC_INDEX e)\<rparr>)"
  by (simp add: index_upsert_def external_ok)

lemma index_upsert_fault:
  "faults e (calls e) = Some ex \<Longrightarrow> index_upsert vs e = (Inl ex, e\<lparr>calls := Suc (calls e)\<rparr>)"
  by (simp add: index_upsert_def external_fault)

lemma kv_put_ok:
  "faults e (calls e) = None \<Longrightarrow>
   kv_put b key v e =
     (Inr (), e\<lparr>calls := Suc (calls e),
               KV := (KV e)(bound_to e b := AList.update key v (KV e (bound_to e b)))\<rparr>)"
  by (simp add: kv_put_def external_ok)

lemma kv_put_fault:
  "faults e (calls e) = Some ex \<Longrightarrow> kv_put b key v e = (Inl ex, e\<lparr>calls := Suc (calls e)\<rparr>)"
  by (simp add: kv_put_def external_fault)

lemma kv_get_json_fault:
  "faults e (calls e) = Some ex \<Longrightarrow> kv_get_json b key e = (Inl ex, e\<lparr>calls := Suc (calls e)\<rparr>)"
  by (simp add: kv_get_json_def kv_get_def external_fault io_defs)

lemma kv_get_json_absent:
  "faults e (calls e) = None \<Longrightarrow> kv_lookup e b key = None \<Longrightarrow>
   kv_get_json b key e = (Inr None, e\<lparr>calls := Suc (calls e)\<rparr>)"
  by (simp add: kv_get_json_def kv_get_def external_ok io_defs kv_lookup_def)

lemma kv_get_json_document:
  "faults e (calls e) = None \<Longrightarrow> kv_lookup e b key = Some (DocumentJson d) \<Longrightarrow>
   kv_get_json b key e = (Inr (Some (JObject d)), e\<lparr>calls := Suc (calls e)\<rparr>)"
  by (simp add: kv_get_json_def kv_get_def external_ok io_defs kv_lookup_def)

lemma kv_get_json_number:
  "faults e (calls e) = None \<Longrightarrow> kv_lookup e b key = Some (NumberText (Num n)) \<Longrightarrow>
   kv_get_json b key e = (Inr (Some (JNumber n)), e\<lparr>calls := Suc (calls e)\<rparr>)"
  by (simp add: kv_get_json_def kv_get_def external_ok io_defs kv_lookup_def)

lemma index_deleteByIds_ok:
  "faults e (calls e) = None \<Longrightarrow>
   index_deleteByIds ids e =
     (Inr (), e\<lparr>calls := Suc (calls e),
               DOC_INDEX := filter (\<lambda>v. id' v \<notin> set ids) (DOC_INDEX e)\<rparr>)"
  by (simp add: index_deleteByIds_def external_ok)

lemma index_deleteByIds_fault:
  "faults e (calls e) = Some ex \<Longrightarrow>
   index_deleteByIds ids e = (Inl ex, e\<lparr>calls := Suc (calls e)\<rparr>)"
  by (simp add: index_deleteByIds_def external_fault)

lemma kv_delete_ok:
  "faults e (calls e) = None \<Longrightarrow>
   kv_delete b key e = (Inr (), remove_key b key (e\<lparr>calls := Suc (calls e)\<rparr>))"
  by (simp add: kv_delete_def external_ok remove_key_def)

lemma kv_delete_fault:
  "faults e (calls e) = Some ex \<Longrightarrow> kv_delete b key e = (Inl ex, e\<lparr>calls := Suc (calls e)\<rparr>)"
  by (simp add: kv_delete_def external_fault)

subsection \<open>The paths of the ingestion pipeline\<close>

lemma ingest_fault0:
  "faults e (calls e) = Some ex \<Longrightarrow>
   embedAndStore texts md e =
     (Inr (Failure (error_message ex ''Failed to embed and store documents'')),
      e\<lparr>calls := Suc (calls e)\<rparr>)"
  by (simp add: embedAndStore_def embedAndStore_try_def io_defs Let_def checkVectorQuota_fault)

lemma ingest_denied:
  "faults e (calls e) = None \<Longrightarrow> \<not> admitted texts md e \<Longrightarrow>
   embedAndStore texts md e =
     (Inr (Failure (quota_error
        \<lparr>allowed = False, currentCount = stored_count e,
          availableQuota = js_sub_from MAX_VECTORS (stored_count e)\<rparr> (requested texts md e))),
      e\<lparr>calls := Suc (calls e),
        console := console e @
          [\<lparr>log_timestamp = now e, log_count = stored_count e, log_delta = Some 0,
            log_reason = ''quota_denied_requested_'' @ toString_int (requested texts md e)\<rparr>]\<rparr>)"
  by (simp add: embedAndStore_def embedAndStore_try_def io_defs Let_def checkVectorQuota_ok
      emitQuotaMetric_def)

lemma ingest_fault1:
  "faults e (calls e) = None \<Longrightarrow> admitted texts md e \<Longrightarrow>
   faults e (Suc (calls e)) = Some ex \<Longrightarrow>
   embedAndStore texts md e =
     (Inr (Failure (error_message ex ''Failed to embed and store documents'')),
      e\<lparr>calls := Suc (Suc (calls e))\<rparr>)"
  by (simp add: embedAndStore_def embedAndStore_try_def io_defs Let_def checkVectorQuota_ok
      ai_run_fault)

lemma ingest_invalid:
  "faults e (calls e) = None \<Longrightarrow> admitted texts md e \<Longrightarrow>
   faults e (Suc (calls e)) = None \<Longrightarrow> AI e (allChunks_of texts md e) = InvalidResponse \<Longrightarrow>
   embedAndStore texts md e =
     (Inr (Failure ''Invalid embedding response''), e\<lparr>calls := Suc (Suc (calls e))\<rparr>)"
  by (simp add: embedAndStore_def embedAndStore_try_def io_defs Let_def checkVectorQuota_ok
      ai_run_ok error_message_def)

lemma ingest_fault2:
  "faults e (calls e) = None \<Longrightarrow> admitted texts md e \<Longrightarrow>
   faults e (Suc (calls e)) = None \<Longrightarrow> AI e (allChunks_of texts md e) = Data data \<Longrightarrow>
   faults e (Suc (Suc (calls e))) = Some ex \<Longrightarrow>
   embedAndStore texts md e =
     (Inr (Failure (error_message ex ''Failed to embed and store documents'')),
      e\<lparr>calls := Suc (Suc (Suc (calls e)))\<rparr>)"
  by (simp add: embedAndStore_def embedAndStore_try_def io_defs Let_def checkVectorQuota_ok
      ai_run_ok index_upsert_fault)

lemma ingest_fault3:
  "faults e (calls e) = None \<Longrightarrow> admitted texts md e \<Longrightarrow>
   faults e (Suc (calls e)) = None \<Longrightarrow> AI e (allChunks_of texts md e) = Data data \<Longrightarrow>
   faults e (Suc (Suc (calls e))) = None \<Longrightarrow>
   faults e (Suc (Suc (Suc (calls e)))) = Some ex \<Longrightarrow>
   embedAndStore texts md e =
     (Inr (Failure (error_message ex ''Failed to embed and store documents'')),
      e\<lparr>calls := Suc (Suc (Suc (Suc (calls e)))),
        DOC_INDEX := upsert (vectors_of texts md e data) (DOC_INDEX e)\<rparr>)"
  by (simp add: embedAndStore_def embedAndStore_try_def io_defs Let_def checkVectorQuota_ok
      ai_run_ok index_upsert_ok updateVectorCount_fault1)

lemma ingest_fault4:
  "faults e (calls e) = None \<Longrightarrow> admitted texts md e \<Longrightarrow>
   faults e (Suc (calls e)) = None \<Longrightarrow> AI e (allChunks_of texts md e) = Data data \<Longrightarrow>
   faults e (Suc (Suc (calls e))) = None \<Longrightarrow>
   faults e (Suc (Suc (Suc (calls e)))) = None \<Longrightarrow>
   faults e (Suc (Suc (Suc (Suc (calls e))))) = Some ex \<Longrightarrow>
   embedAndStore texts md e =
     (Inr (Failure (error_message ex ''Failed to embed and store documents'')),
      e\<lparr>calls := Suc (Suc (Suc (Suc (Suc (calls e))))),
        DOC_INDEX := upsert (vectors_of texts md e data) (DOC_INDEX e)\<rparr>)"
  by (simp add: embedAndStore_def embedAndStore_try_def io_defs Let_def checkVectorQuota_ok
      ai_run_ok index_upsert_ok updateVectorCount_fault2)

lemma ingest_fault5:
  "faults e (calls e) = None \<Longrightarrow> admitted texts md e \<Longrightarrow>
   faults e (Suc (calls e)) = None \<Longrightarrow> AI e (allChunks_of texts md e) = Data data \<Longrightarrow>
   faults e (Suc (Suc (calls e))) = None \<Longrightarrow>
   faults e (Suc (Suc (Suc (calls e)))) = None \<Longrightarrow>
   faults e (Suc (Suc (Suc (Suc (calls e))))) = None \<Longrightarrow>
   faults e (Suc (Suc (Suc (Suc (Suc (calls e)))))) = Some ex \<Longrightarrow>
   \<exists>e'. embedAndStore texts md e =
     (Inr (Failure (error_message ex ''Failed to embed and store documents'')), e')
     \<and> DOC_INDEX e' = upsert (vectors_of texts md e data) (DOC_INDEX e)
     \<and> stored_count e' = Math_max 0 (js_add (stored_count e) (int (length data)))"
  by (simp add: embedAndStore_def embedAndStore_try_def io_defs Let_def checkVectorQuota_ok
      ai_run_ok index_upsert_ok updateVectorCount_ok emitQuotaMetric_def kv_put_fault
      stored_count_def kv_lookup_def put_count_def update_conv')

lemma ingest_ok:
  "faults e (calls e) = None \<Longrightarrow> admitted texts md e \<Longrightarrow>
   faults e (Suc (calls e)) = None \<Longrightarrow> AI e (allChunks_of texts md e) = Data data \<Longrightarrow>
   faults e (Suc (Suc (calls e))) = None \<Longrightarrow>
   faults e (Suc (Suc (Suc (calls e)))) = None \<Longrightarrow>
   faults e (Suc (Suc (Suc (Suc (calls e))))) = None \<Longrightarrow>
   faults e (Suc (Suc (Suc (Suc (Suc (calls e)))))) = None \<Longrightarrow>
   embedAndStore texts md e =
     (Inr (Success (map id' (vectors_of texts md e data))),
      put_document (documentId md) (document_of texts md e data)
        (put_count (Math_max 0 (js_add (stored_count e) (int (length data))))
          (e\<lparr>calls := calls e + 6,
             DOC_INDEX := upsert (vectors_of texts md e data) (DOC_INDEX e),
             console := console e @
               [\<lparr>log_timestamp = now e,
                 log_count = Math_max 0 (js_add (stored_count e) (int (length data))),
                 log_delta = Some (int (length data)),
                 log_reason = ''upsert_document_'' @ documentId md\<rparr>]\<rparr>)))"
  by (simp add: embedAndStore_def embedAndStore_try_def io_defs Let_def checkVectorQuota_ok
      ai_run_ok index_upsert_ok updateVectorCount_ok emitQuotaMetric_def kv_put_ok
      put_document_def put_count_def)

lemma io_catch_returns:
  assumes "\<And>ex e1. \<exists>r e'. h ex e1 = (Inr r, e')"
  shows "\<exists>r e'. io_catch m h e = (Inr r, e')"
proof (cases "m e")
  case (Pair a e1)
  show ?thesis
  proof (cases a)
    case (Inl ex)
    with Pair assms [of ex e1] show ?thesis by (simp add: io_catch_def)
  next
    case (Inr x)
    with Pair show ?thesis by (simp add: io_catch_def)
  qed
qed

lemma embedAndStore_returns: "\<exists>r e'. embedAndStore texts md e = (Inr r, e')"
  unfolding embedAndStore_def by (rule io_catch_returns) (simp add: io_return_def)

lemma ingest_KV_changed:
  assumes "KV (snd (embedAndStore texts md e)) \<noteq> KV e"
  shows "faults e (calls e) = None \<and> admitted texts md e \<and> faults e (Suc (calls e)) = None
       \<and> faults e (Suc (Suc (calls e))) = None
       \<and> (\<exists>data. AI e (allChunks_of texts md e) = Data data
            \<and> DOC_INDEX (snd (embedAndStore texts md e))
                = upsert (vectors_of texts md e data) (DOC_INDEX e))"
proof -
  have f0: "faults e (calls e) = None"
  proof (rule ccontr)
    assume "faults e (calls e) \<noteq> None"
    then obtain ex where "faults e (calls e) = Some ex" by auto
    from ingest_fault0 [OF this] assms show False by simp
  qed
  have adm: "admitted texts md e"
  proof (rule ccontr)
    assume "\<not> admitted texts md e"
    from ingest_denied [OF f0 this] assms show False by simp
  qed
  have f1: "faults e (Suc (calls e)) = None"
  proof (rule ccontr)
    assume "faults e (Suc (calls e)) \<noteq> None"
    then obtain ex where "faults e (Suc (calls e)) = Some ex" by auto
    from ingest_fault1 [OF f0 adm this] assms show False by simp
  qed
  obtain data where ai: "AI e (allChunks_of texts md e) = Data data"
  proof (cases "AI e (allChunks_of texts md e)")
    case InvalidResponse
    from ingest_invalid [OF f0 adm f1 this] assms show ?thesis by simp
  next
    case (Data data)
    then show ?thesis by (rule that)
  qed
  have f2: "faults e (Suc (Suc (calls e))) = None"
  proof (rule ccontr)
    assume "faults e (Suc (Suc (calls e))) \<noteq> None"
    then obtain ex where "faults e (Suc (Suc (calls e))) = Some ex" by auto
    from ingest_fault2 [OF f0 adm f1 ai this] assms show False by simp
  qed
  have ix: "DOC_INDEX (snd (embedAndStore texts md e))
              = upsert (vectors_of texts md e data) (DOC_INDEX e)"
  proof (cases "faults e (Suc (Suc (Suc (calls e))))")
    case (Some ex)
    from ingest_fault3 [OF f0 adm f1 ai f2 this] show ?thesis by simp
  next
    case f3: None
    show ?thesis
    proof (cases "faults e (Suc (Suc (Suc (Suc (calls e)))))")
      case (Some ex)
      from ingest_fault4 [OF f0 adm f1 ai f2 f3 this] show ?thesis by simp
    next
      case f4: None
      show ?thesis
      proof (cases "faults e (Suc (Suc (Suc (Suc (Suc (calls e))))))")
        case (Some ex)
        from ingest_fault5 [OF f0 adm f1 ai f2 f3 f4 this] show ?thesis by auto
      next
        case f5: None
        from ingest_ok [OF f0 adm f1 ai f2 f3 f4 f5] show ?thesis
          by (simp add: put_document_def put_count_def)
      qed
    qed
  qed
  from f0 adm f1 f2 ai ix show ?thesis by blast
qed

lemma ingest_success_inv:
  assumes "embedAndStore texts md e = (Inr (Success ids), e1)"
  obtains data where "AI e (allChunks_of texts md e) = Data data"
    and "ids = map id' (vectors_of texts md e data)"
    and "e1 = put_document (documentId md) (document_of texts md e data)
        (put_count (Math_max 0 (js_add (stored_count e) (int (length data))))
          (e\<lparr>calls := calls e + 6,
             DOC_INDEX := upsert (vectors_of texts md e data) (DOC_INDEX e),
             console := console e @
               [\<lparr>log_timestamp = now e,
                 log_count = Math_max 0 (js_add (stored_count e) (int (length data))),
                 log_delta = Some (int (length data)),
                 log_reason = ''upsert_document_'' @ documentId md\<rparr>]\<rparr>))"
proof -
  have f0: "faults e (calls e) = None"
  proof (rule ccontr)
    assume "faults e (calls e) \<noteq> None"
    then obtain ex where "faults e (calls e) = Some ex" by auto
    from ingest_fault0 [OF this] assms show False by simp
  qed
  have adm: "admitted texts md e"
  proof (rule ccontr)
    assume "\<not> admitted texts md e"
    from ingest_denied [OF f0 this] assms show False by simp
  qed
  have f1: "faults e (Suc (calls e)) = None"
  proof (rule ccontr)
    assume "faults e (Suc (calls e)) \<noteq> None"
    then obtain ex where "faults e (Suc (calls e)) = Some ex" by auto
    from ingest_fault1 [OF f0 adm this] assms show False by simp
  qed
  obtain data where ai: "AI e (allChunks_of texts md e) = Data data"
  proof (cases "AI e (allChunks_of texts md e)")
    case InvalidResponse
    from ingest_invalid [OF f0 adm f1 this] assms show ?thesis by simp
  next
    case (Data data)
    then show ?thesis by (rule that)
  qed
  have f2: "faults e (Suc (Suc (calls e))) = None"
  proof (rule ccontr)
    assume "faults e (Suc (Suc (calls e))) \<noteq> None"
    then obtain ex where "faults e (Suc (Suc (calls e))) = Some ex" by auto
    from ingest_fault2 [OF f0 adm f1 ai this] assms show False by simp
  qed
  have f3: "faults e (Suc (Suc (Suc (calls e)))) = None"
  proof (rule ccontr)
    assume "faults e (Suc (Suc (Suc (calls e)))) \<noteq> None"
    then obtain ex where "faults e (Suc (Suc (Suc (calls e)))) = Some ex" by auto
    from ingest_fault3 [OF f0 adm f1 ai f2 this] assms show False by simp
  qed
  have f4: "faults e (Suc (Suc (Suc (Suc (calls e))))) = None"
  proof (rule ccontr)
    assume "faults e (Suc (Suc (Suc (Suc (calls e))))) \<noteq> None"
    then obtain ex where "faults e (Suc (Suc (Suc (Suc (calls e))))) = Some ex" by auto
    from ingest_fault4 [OF f0 adm f1 ai f2 f3 this] assms show False by simp
  qed
  have f5: "faults e (Suc (Suc (Suc (Suc (Suc (calls e)))))) = None"
  proof (rule ccontr)
    assume "faults e (Suc (Suc (Suc (Suc (Suc (calls e)))))) \<noteq> None"
    then obtain ex where "faults e (Suc (Suc (Suc (Suc (Suc (calls e)))))) = Some ex" by auto
    from ingest_fault5 [OF f0 adm f1 ai f2 f3 f4 this] assms show False by auto
  qed
  from ingest_ok [OF f0 adm f1 ai f2 f3 f4 f5] assms
  have "ids = map id' (vectors_of texts md e data)"
    and "e1 = put_document (documentId md) (document_of texts md e data)
        (put_count (Math_max 0 (js_add (stored_count e) (int (length data))))
          (e\<lparr>calls := calls e + 6,
             DOC_INDEX := upsert (vectors_of texts md e data) (DOC_INDEX e),
             console := console e @
               [\<lparr>log_timestamp = now e,
                 log_count = Math_max 0 (js_add (stored_count e) (int (length data))),
                 log_delta = Some (int (length data)),
                 log_reason = ''upsert_document_'' @ documentId md\<rparr>]\<rparr>))"
    by simp_all
  with ai show ?thesis by (rule that)
qed

subsection \<open>The paths of the deletion pipeline\<close>

lemma delete_lookup_fault:
  assumes "faults e (calls e) = Some ex"
  shows "deleteDocumentVectors docId e =
           (Inr \<lparr>success = False, deletedCount = 0,
                 error = Some (error_message ex ''Failed to delete document vectors'')\<rparr>,
            e\<lparr>calls := Suc (calls e)\<rparr>)"
  using assms by (simp add: deleteDocumentVectors_def io_defs kv_get_json_fault)

lemma delete_vectors_fault:
  assumes "faults e (calls e) = None"
    and "kv_lookup e DOC_METADATA docId = Some (DocumentJson d)" and "vectorIds d = Some ids"
    and "faults e (Suc (calls e)) = Some ex"
  shows "deleteDocumentVectors docId e =
           (Inr \<lparr>success = False, deletedCount = 0,
                 error = Some (error_message ex ''Failed to delete document vectors'')\<rparr>,
            e\<lparr>calls := Suc (Suc (calls e))\<rparr>)"
  using assms
  by (simp add: deleteDocumentVectors_def io_defs kv_get_json_document index_deleteByIds_fault)

lemma delete_ok:
  assumes "faults e (calls e) = None"
    and "kv_lookup e DOC_METADATA docId = Some (DocumentJson d)" and "vectorIds d = Some ids"
    and "faults e (Suc (calls e)) = None" and "faults e (Suc (Suc (calls e))) = None"
    and "faults e (Suc (Suc (Suc (calls e)))) = None"
    and "faults e (Suc (Suc (Suc (Suc (calls e))))) = None"
  shows "deleteDocumentVectors docId e =
           (Inr \<lparr>success = True, deletedCount = int (length ids), error = None\<rparr>,
            remove_key DOC_METADATA docId
              (put_count (Math_max 0 (js_add (stored_count e) (- int (length ids))))
                (e\<lparr>calls := calls e + 5,
                   DOC_INDEX := filter (\<lambda>v. id' v \<notin> set ids) (DOC_INDEX e),
                   console := console e @
                     [\<lparr>log_timestamp = now e,
                       log_count = Math_max 0 (js_add (stored_count e) (- int (length ids))),
                       log_delta = Some (- int (length ids)),
                       log_reason = ''delete_document_'' @ docId\<rparr>]\<rparr>)))"
  using assms
  by (simp add: deleteDocumentVectors_def io_defs kv_get_json_document index_deleteByIds_ok
      updateVectorCount_ok emitQuotaMetric_def kv_delete_ok put_count_def remove_key_def)

lemma delete_count_fault:
  assumes "faults e (calls e) = None"
    and "kv_lookup e DOC_METADATA docId = Some (DocumentJson d)" and "vectorIds d = Some ids"
    and "faults e (Suc (calls e)) = None"
    and "faults e (Suc (Suc (calls e))) = Some ex
       \<or> faults e (Suc (Suc (calls e))) = None \<and> faults e (Suc (Suc (Suc (calls e)))) = Some ex"
  shows "\<exists>e'. deleteDocumentVectors docId e =
           (Inr \<lparr>success = False, deletedCount = 0,
                 error = Some (error_message ex ''Failed to delete document vectors'')\<rparr>, e')
         \<and> KV e' = KV e"
  using assms
  by (auto simp: deleteDocumentVectors_def io_defs kv_get_json_document index_deleteByIds_ok
      updateVectorCount_fault1 updateVectorCount_fault2)

lemma delete_metadata_fault:
  assumes "faults e (calls e) = None"
    and "kv_lookup e DOC_METADATA docId = Some (DocumentJson d)" and "vectorIds d = Some ids"
    and "faults e (Suc (calls e)) = None" and "faults e (Suc (Suc (calls e))) = None"
    and "faults e (Suc (Suc (Suc (calls e)))) = None"
    and "faults e (Suc (Suc (Suc (Suc (calls e))))) = Some ex"
  shows "\<exists>e'. deleteDocumentVectors docId e =
           (Inr \<lparr>success = False, deletedCount = 0,
                 error = Some (error_message ex ''Failed to delete document vectors'')\<rparr>, e')"
  using assms
  by (simp add: deleteDocumentVectors_def io_defs kv_get_json_document index_deleteByIds_ok
      updateVectorCount_ok emitQuotaMetric_def kv_delete_fault)

lemma delete_success_inv:
  assumes run: "deleteDocumentVectors docId e = (Inr r, e')" and ok: "success r"
    and doc: "kv_lookup e DOC_METADATA docId = Some (DocumentJson d)" "vectorIds d = Some ids"
  shows "deletedCount r = int (length ids)
       \<and> e' = remove_key DOC_METADATA docId
              (put_count (Math_max 0 (js_add (stored_count e) (- int (length ids))))
                (e\<lparr>calls := calls e + 5,
                   DOC_INDEX := filter (\<lambda>v. id' v \<notin> set ids) (DOC_INDEX e),
                   console := console e @
                     [\<lparr>log_timestamp = now e,
                       log_count = Math_max 0 (js_add (stored_count e) (- int (length ids))),
                       log_delta = Some (- int (length ids)),
                       log_reason = ''delete_document_'' @ docId\<rparr>]\<rparr>))"
proof -
  have f0: "faults e (calls e) = None"
  proof (rule ccontr)
    assume "faults e (calls e) \<noteq> None"
    then obtain ex where "faults e (calls e) = Some ex" by auto
    from delete_lookup_fault [OF this] run ok show False by auto
  qed
  have f1: "faults e (Suc (calls e)) = None"
  proof (rule ccontr)
    assume "faults e (Suc (calls e)) \<noteq> None"
    then obtain ex where "faults e (Suc (calls e)) = Some ex" by auto
    from delete_vectors_fault [OF f0 doc this] run ok show False by auto
  qed
  have f2: "faults e (Suc (Suc (calls e))) = None"
  proof (rule ccontr)
    assume "faults e (Suc (Suc (calls e))) \<noteq> None"
    then obtain ex where "faults e (Suc (Suc (calls e))) = Some ex" by auto
    with delete_count_fault [OF f0 doc f1, of ex] run ok show False by auto
  qed
  have f3: "faults e (Suc (Suc (Suc (calls e)))) = None"
  proof (rule ccontr)
    assume "faults e (Suc (Suc (Suc (calls e)))) \<noteq> None"
    then obtain ex where "faults e (Suc (Suc (Suc (calls e)))) = Some ex" by auto
    with delete_count_fault [OF f0 doc f1, of ex] f2 run ok show False by auto
  qed
  have f4: "faults e (Suc (Suc (Suc (Suc (calls e))))) = None"
  proof (rule ccontr)
    assume "faults e (Suc (Suc (Suc (Suc (calls e))))) \<noteq> None"
    then obtain ex where "faults e (Suc (Suc (Suc (Suc (calls e))))) = Some ex" by auto
    from delete_metadata_fault [OF f0 doc f1 f2 f3 this] run ok show False by auto
  qed
  from delete_ok [OF f0 doc f1 f2 f3 f4] run show ?thesis by simp
qed

subsection \<open>The paths of the cleanup of one document\<close>

lemma cleanup_vectors_fault:
  assumes "faults e (calls e) = None"
    and "kv_lookup e DOCUMENT_METADATA key = Some (DocumentJson d)"
    and "uploadedAt d = Some t" and "t < cutoff"
    and "chunks d = Some ids" and "ids \<noteq> []"
    and "faults e (Suc (calls e)) = Some ex"
    and "faults e (Suc (Suc (calls e))) = None"
  shows "cleanup_document cutoff key n e =
           ((Inr (), n), remove_key DOCUMENT_METADATA key (e\<lparr>calls := calls e + 3\<rparr>))"
  using assms
  by (simp add: cleanup_document_def kv_get_json_document index_deleteByIds_fault kv_delete_ok
      remove_key_def)

lemma cleanup_vectors_ok:
  assumes "faults e (calls e) = None"
    and "kv_lookup e DOCUMENT_METADATA key = Some (DocumentJson d)"
    and "uploadedAt d = Some t" and "t < cutoff"
    and "chunks d = Some ids" and "ids \<noteq> []"
    and "faults e (Suc (calls e)) = None"
    and "faults e (Suc (Suc (calls e))) = None"
    and "faults e (Suc (Suc (Suc (calls e)))) = None"
    and "faults e (Suc (Suc (Suc (Suc (calls e))))) = None"
  shows "cleanup_document cutoff key n e =
           ((Inr (), n + int (length ids)),
            remove_key DOCUMENT_METADATA key
              (put_count (Math_max 0 (js_add (stored_count e) (- int (length ids))))
                (e\<lparr>calls := calls e + 5,
                   DOC_INDEX := filter (\<lambda>v. id' v \<notin> set ids) (DOC_INDEX e)\<rparr>)))"
  using assms
  by (simp add: cleanup_document_def kv_get_json_document index_deleteByIds_ok kv_delete_ok
      updateVectorCount_ok remove_key_def put_count_def)

lemma cleanup_newer_untouched:
  assumes "faults e (calls e) = None"
    and "kv_lookup e DOCUMENT_METADATA key = Some (DocumentJson d)"
    and "uploadedAt d = Some t" and "\<not> t < cutoff"
  shows "cleanup_document cutoff key n e = ((Inr (), n), e\<lparr>calls := Suc (calls e)\<rparr>)"
  using assms
  by (simp add: cleanup_document_def kv_get_json_document)

lemma cleanup_without_chunks:
  assumes "faults e (calls e) = None"
    and "kv_lookup e DOCUMENT_METADATA key = Some (DocumentJson d)"
    and "uploadedAt d = Some t" and "t < cutoff"
    and "chunks d = None"
    and "faults e (Suc (calls e)) = None"
  shows "cleanup_document cutoff key n e =
           ((Inr (), n), remove_key DOCUMENT_METADATA key (e\<lparr>calls := calls e + 2\<rparr>))"
  using assms
  by (simp add: cleanup_document_def kv_get_json_document kv_delete_ok remove_key_def)

section \<open>Chunker claims\<close>

text \<open>
  C2 says that the concatenation of the chunks, up to white space, reconstructs the input
  text: nothing is lost. The sentence pattern matches only text that ends in a terminator,
  so the text after the last terminator is in no sentence and in no chunk: of
  \<open>Hello. World\<close> the chunker returns the one chunk \<open>Hello.\<close>, and with all white space
  removed the chunks give \<open>Hello.\<close> where the input gives \<open>Hello.World\<close>.
\<close>

theorem chunkText_drops_unterminated_tail:
  "match_all ''Hello. World'' = [''Hello.'']
   \<and> chunkText ''Hello. World'' 1000 = [''Hello.'']
   \<and> strip_whitespace (concat (chunkText ''Hello. World'' 1000)) = ''Hello.''
   \<and> strip_whitespace ''Hello. World'' = ''Hello.World''"
  by code_simp

text \<open>
  C7 says that a chunk is longer than the maximum only if it is a single sentence that is
  longer than the maximum. The loop compares the length of \<open>currentChunk + sentence\<close> with
  the maximum and then appends the sentence behind a space that the comparison did not
  count: of \<open>a.b.c.\<close> with maximum 4 every sentence has length 2, and the second chunk is
  \<open>b. c.\<close>, of length 5.
\<close>

theorem chunkText_joined_chunk_exceeds_max:
  "match_all ''a.b.c.'' = [''a.'', ''b.'', ''c.'']
   \<and> chunkText ''a.b.c.'' 4 = [''a.'', ''b. c.'']
   \<and> length ''b. c.'' = 5"
  by code_simp

section \<open>Quota tracker claims\<close>



text \<open>
  C6: when its read and its write do not throw, \<open>updateVectorCount d\<close> on a stored count
  \<open>c\<close> returns \<open>max 0 (c + d)\<close> and stores it, so that the count read back is that value.
  This is stated for safe integers \<open>c\<close>, \<open>d\<close> and \<open>c + d\<close>, where the addition of the
  source is exact and the stored text is a decimal numeral; the value returned is then a
  safe integer again. From a stored count that is a safe integer and not negative,
  whatever the adjustments by safe integers are and whichever calls throw, every value
  returned is a number that is not negative, and so is the stored count in the end.
\<close>

theorem updateVectorCount_clamps_at_zero:
  shows "(faults e (calls e) = None \<and> faults e (Suc (calls e)) = None
          \<and> stored_count e = Num c
          \<and> safe_integer c \<and> safe_integer d \<and> safe_integer (c + d) \<longrightarrow>
            updateVectorCount d e =
              (Inr (Num (max 0 (c + d))),
               put_count (Num (max 0 (c + d))) (e\<lparr>calls := Suc (Suc (calls e))\<rparr>))
            \<and> stored_count (snd (updateVectorCount d e)) = Num (max 0 (c + d))
            \<and> safe_integer (max 0 (c + d)))
       \<and> (stored_count e = Num c \<and> 0 \<le> c \<and> safe_integer c
          \<and> (\<forall>d \<in> set ds. safe_integer d) \<longrightarrow>
            (\<forall>v \<in> set (fst (adjust_all ds e)). is_nonneg v)
            \<and> is_nonneg (stored_count (snd (adjust_all ds e))))"
proof (intro conjI impI)
  assume a: "faults e (calls e) = None \<and> faults e (Suc (calls e)) = None
          \<and> stored_count e = Num c
          \<and> safe_integer c \<and> safe_integer d \<and> safe_integer (c + d)"
  then have r: "updateVectorCount d e =
              (Inr (Num (max 0 (c + d))),
               put_count (Num (max 0 (c + d))) (e\<lparr>calls := Suc (Suc (calls e))\<rparr>))"
    by (simp add: updateVectorCount_ok)
  then show "updateVectorCount d e =
              (Inr (Num (max 0 (c + d))),
               put_count (Num (max 0 (c + d))) (e\<lparr>calls := Suc (Suc (calls e))\<rparr>))" .
  show "stored_count (snd (updateVectorCount d e)) = Num (max 0 (c + d))"
    by (simp add: r)
  from a show "safe_integer (max 0 (c + d))"
    by (simp add: safe_integer_def MAX_SAFE_INTEGER_def)
next
  assume "stored_count e = Num c \<and> 0 \<le> c \<and> safe_integer c
          \<and> (\<forall>d \<in> set ds. safe_integer d)"
  then have "is_nonneg (stored_count e)" by simp
  from adjust_all_nonneg [OF this, of ds]
  show "\<forall>v \<in> set (fst (adjust_all ds e)). is_nonneg v"
    and "is_nonneg (stored_count (snd (adjust_all ds e)))"
    by blast+
qed

theorem updateVectorCount_clamps_at_zero_witness:
  "faults (env_count 85) (calls (env_count 85)) = None
   \<and> faults (env_count 85) (Suc (calls (env_count 85))) = None
   \<and> stored_count (env_count 85) = Num 85
   \<and> safe_integer 85 \<and> safe_integer (- 90) \<and> safe_integer (85 + - 90)
   \<and> fst (updateVectorCount (- 90) (env_count 85)) = Inr (Num 0)
   \<and> stored_count (snd (updateVectorCount (- 90) (env_count 85))) = Num 0
   \<and> safe_integer (max 0 (85 + - 90))
   \<and> (0::int) \<le> 85
   \<and> list_all safe_integer [5, - 200, 3]
   \<and> list_all is_nonneg (fst (adjust_all [5, - 200, 3] (env_count 85)))
   \<and> is_nonneg (stored_count (snd (adjust_all [5, - 200, 3] (env_count 85))))"
proof -
  have f: "faults (env_count 85) (calls (env_count 85)) = None"
    "faults (env_count 85) (Suc (calls (env_count 85))) = None"
    by (simp_all add: env_count_def env_shared_def)
  have s: "stored_count (env_count 85) = Num 85"
    by (simp add: stored_count_def env_count_def env_shared_def kv_lookup_def)
  have g: "safe_integer 85" "safe_integer (- 90)" "safe_integer (85 + - 90)"
    "list_all safe_integer [5, - 200, 3]"
    by (simp_all add: safe_integer_def MAX_SAFE_INTEGER_def)
  have n: "(0::int) \<le> 85" by simp
  note t = updateVectorCount_clamps_at_zero
    [where e = "env_count 85" and c = 85 and d = "- 90" and ds = "[5, - 200, 3]"]
  from t f s g n
  have r1: "fst (updateVectorCount (- 90) (env_count 85)) = Inr (Num 0)"
    and r2: "stored_count (snd (updateVectorCount (- 90) (env_count 85))) = Num 0"
    and r3: "safe_integer (max 0 (85 + - 90))"
    by (simp_all add: list_all_iff)
  from t s g n
  have r4: "list_all is_nonneg (fst (adjust_all [5, - 200, 3] (env_count 85)))"
    and r5: "is_nonneg (stored_count (snd (adjust_all [5, - 200, 3] (env_count 85))))"
    by (simp_all add: list_all_iff)
  show ?thesis
    by (intro conjI) (fact f s g n r1 r2 r3 r4 r5)+
qed

section \<open>Ingestion claims\<close>



text \<open>
  C4: \<open>embedAndStore\<close> never throws: whatever a step throws, the caller gets a result,
  and it is the failure that carries the message of the thrown error (a fixed message for
  a thrown value that is no error). When the model answers with an invalid shape the result is the failure
  \<open>Invalid embedding response\<close>, and when the upsert throws it is the failure with the
  message of the thrown error; in both cases the environment is as before, apart from the
  count of calls made. In general the key-value store (counter and metadata) is changed
  only on the path on which the quota check has admitted the batch, the model has answered
  with data and the upsert has returned.
\<close>

theorem embedAndStore_failures:
  shows "(\<exists>r e'. embedAndStore texts md e = (Inr r, e'))
       \<and> (fst (embedAndStore_try texts md e) = Inl thrown \<longrightarrow>
          embedAndStore texts md e =
            (Inr (Failure (error_message thrown ''Failed to embed and store documents'')),
             snd (embedAndStore_try texts md e)))
       \<and> (faults e (calls e) = None \<and> admitted texts md e \<and> faults e (Suc (calls e)) = None
            \<and> AI e (allChunks_of texts md e) = InvalidResponse \<longrightarrow>
          embedAndStore texts md e =
            (Inr (Failure ''Invalid embedding response''), e\<lparr>calls := Suc (Suc (calls e))\<rparr>))
       \<and> (faults e (calls e) = None \<and> admitted texts md e \<and> faults e (Suc (calls e)) = None
            \<and> AI e (allChunks_of texts md e) = Data data
            \<and> faults e (Suc (Suc (calls e))) = Some ex \<longrightarrow>
          embedAndStore texts md e =
            (Inr (Failure (error_message ex ''Failed to embed and store documents'')),
             e\<lparr>calls := Suc (Suc (Suc (calls e)))\<rparr>))
       \<and> (KV (snd (embedAndStore texts md e)) \<noteq> KV e \<longrightarrow>
          faults e (calls e) = None \<and> admitted texts md e \<and> faults e (Suc (calls e)) = None
          \<and> faults e (Suc (Suc (calls e))) = None
          \<and> (\<exists>data. AI e (allChunks_of texts md e) = Data data
               \<and> DOC_INDEX (snd (embedAndStore texts md e))
                   = upsert (vectors_of texts md e data) (DOC_INDEX e)))"
proof (intro conjI impI)
  show "\<exists>r e'. embedAndStore texts md e = (Inr r, e')"
    by (rule embedAndStore_returns)
next
  assume "fst (embedAndStore_try texts md e) = Inl thrown"
  then show "embedAndStore texts md e =
            (Inr (Failure (error_message thrown ''Failed to embed and store documents'')),
             snd (embedAndStore_try texts md e))"
    by (cases "embedAndStore_try texts md e") (simp add: embedAndStore_def io_defs)
next
  assume "faults e (calls e) = None \<and> admitted texts md e \<and> faults e (Suc (calls e)) = None
            \<and> AI e (allChunks_of texts md e) = InvalidResponse"
  then show "embedAndStore texts md e =
            (Inr (Failure ''Invalid embedding response''), e\<lparr>calls := Suc (Suc (calls e))\<rparr>)"
    using ingest_invalid [of e texts md] by blast
next
  assume "faults e (calls e) = None \<and> admitted texts md e \<and> faults e (Suc (calls e)) = None
            \<and> AI e (allChunks_of texts md e) = Data data
            \<and> faults e (Suc (Suc (calls e))) = Some ex"
  then show "embedAndStore texts md e =
            (Inr (Failure (error_message ex ''Failed to embed and store documents'')),
             e\<lparr>calls := Suc (Suc (Suc (calls e)))\<rparr>)"
    using ingest_fault2 [of e texts md data ex] by blast
next
  assume "KV (snd (embedAndStore texts md e)) \<noteq> KV e"
  from ingest_KV_changed [OF this]
  show "faults e (calls e) = None" and "admitted texts md e"
    and "faults e (Suc (calls e)) = None" and "faults e (Suc (Suc (calls e))) = None"
    and "\<exists>data. AI e (allChunks_of texts md e) = Data data
               \<and> DOC_INDEX (snd (embedAndStore texts md e))
                   = upsert (vectors_of texts md e data) (DOC_INDEX e)"
    by blast+
qed

theorem embedAndStore_failures_witness:
  "faults env_invalid (calls env_invalid) = None
   \<and> admitted [''Hello. World!''] doc1 env_invalid
   \<and> faults env_invalid (Suc (calls env_invalid)) = None
   \<and> AI env_invalid (allChunks_of [''Hello. World!''] doc1 env_invalid) = InvalidResponse
   \<and> embedAndStore [''Hello. World!''] doc1 env_invalid =
       (Inr (Failure ''Invalid embedding response''), env_invalid\<lparr>calls := 2\<rparr>)
   \<and> faults (failing_at 2 (env_count 85)) (calls (failing_at 2 (env_count 85))) = None
   \<and> admitted [''Hello. World!''] doc1 (failing_at 2 (env_count 85))
   \<and> faults (failing_at 2 (env_count 85)) (Suc (calls (failing_at 2 (env_count 85)))) = None
   \<and> AI (failing_at 2 (env_count 85))
        (allChunks_of [''Hello. World!''] doc1 (failing_at 2 (env_count 85))) = Data [[0]]
   \<and> faults (failing_at 2 (env_count 85)) (Suc (Suc (calls (failing_at 2 (env_count 85)))))
        = Some (Error ''store unavailable'')
   \<and> embedAndStore [''Hello. World!''] doc1 (failing_at 2 (env_count 85)) =
       (Inr (Failure ''store unavailable''), (failing_at 2 (env_count 85))\<lparr>calls := 3\<rparr>)
   \<and> fst (embedAndStore_try [''Hello. World!''] doc1 (failing_at 2 (env_count 85))) =
       Inl (Error ''store unavailable'')
   \<and> fst (embedAndStore [''Hello. World!''] doc1 (failing_at 2 (env_count 85))) =
       Inr (Failure ''store unavailable'')
   \<and> KV (snd (embedAndStore [''Hello. World!''] doc1 (env_count 85))) \<noteq> KV (env_count 85)
   \<and> map id' (DOC_INDEX (snd (embedAndStore [''Hello. World!''] doc1 (env_count 85)))) =
        [''doc1-1000-0'']"
proof -
  let ?e = "env_count 85"
  let ?i = "env_invalid"
  let ?u = "failing_at 2 (env_count 85)"
  let ?t = "[''Hello. World!'']"
  have st: "stored_count ?i = Num 85" "stored_count ?u = Num 85"
    by (simp_all add: stored_count_def env_invalid_def env_count_def env_shared_def
        kv_lookup_def failing_at_def)
  have nw: "now ?i = 1000" "now ?u = 1000"
    by (simp_all add: env_invalid_def env_count_def env_shared_def failing_at_def)
  have ch: "chunk_entries ?t doc1 1000 =
      [(''Hello.  World!'', \<lparr>documentId = ''doc1'', documentName = ''Notes'',
          documentType = ''text'', chunkIndex = 0, textIndex = 0, chunk = ''Hello.  World!'',
          fullChunk = ''Hello.  World!'', timestamp = 1000\<rparr>)]"
    by code_simp
  have c: "calls ?i = 0" "calls ?u = 0"
    by (simp_all add: env_invalid_def env_count_def env_shared_def failing_at_def)
  have i0: "faults ?i (calls ?i) = None" and i1: "faults ?i (Suc (calls ?i)) = None"
    by (simp_all add: env_invalid_def env_count_def env_shared_def)
  have u0: "faults ?u (calls ?u) = None" and u1: "faults ?u (Suc (calls ?u)) = None"
    and u2: "faults ?u (Suc (Suc (calls ?u))) = Some (Error ''store unavailable'')"
    by (simp_all add: env_count_def env_shared_def failing_at_def)
  have iadm: "admitted ?t doc1 ?i" and uadm: "admitted ?t doc1 ?u"
    by (simp_all add: st nw ch MAX_VECTORS_def)
  have iai: "AI ?i (allChunks_of ?t doc1 ?i) = InvalidResponse"
    by (simp add: env_invalid_def)
  have uai: "AI ?u (allChunks_of ?t doc1 ?u) = Data [[0]]"
    by (simp add: nw ch) (simp add: env_count_def env_shared_def failing_at_def)
  have "KV (snd (embedAndStore ?t doc1 ?e)) 0 =
        [(VECTOR_COUNT_KEY, NumberText (Num 86)),
         (''doc1'', DocumentJson \<lparr>name = ''Notes'', type = ''text'', chunksCount = 1,
            uploadedAt = Some 1000, vectorIds = Some [''doc1-1000-0''], chunks = None\<rparr>)]"
    by code_simp
  moreover have "KV ?e 0 = [(VECTOR_COUNT_KEY, NumberText (Num 85))]"
    by (simp add: env_count_def env_shared_def)
  ultimately have "KV (snd (embedAndStore ?t doc1 ?e)) 0 \<noteq> KV ?e 0"
    by simp
  then have ne: "KV (snd (embedAndStore ?t doc1 ?e)) \<noteq> KV ?e"
    by (rule contrapos_nn) simp
  note thm_i = embedAndStore_failures [where texts = ?t and md = doc1 and e = ?i]
  from thm_i i0 iadm i1 iai
  have "embedAndStore ?t doc1 ?i =
       (Inr (Failure ''Invalid embedding response''), ?i\<lparr>calls := Suc (Suc (calls ?i))\<rparr>)"
    by blast
  then have ri: "embedAndStore ?t doc1 ?i =
       (Inr (Failure ''Invalid embedding response''), ?i\<lparr>calls := 2\<rparr>)"
    by (simp add: c)
  note thm_u = embedAndStore_failures
    [where texts = ?t and md = doc1 and e = ?u and thrown = "Error ''store unavailable''"
       and data = "[[0]]" and ex = "Error ''store unavailable''"]
  have tr: "fst (embedAndStore_try ?t doc1 ?u) = Inl (Error ''store unavailable'')"
    by code_simp
  with thm_u have "embedAndStore ?t doc1 ?u =
       (Inr (Failure (error_message (Error ''store unavailable'')
               ''Failed to embed and store documents'')),
        snd (embedAndStore_try ?t doc1 ?u))"
    by blast
  then have rt: "fst (embedAndStore ?t doc1 ?u) = Inr (Failure ''store unavailable'')"
    by (simp add: error_message_def)
  from thm_u u0 uadm u1 uai u2
  have "embedAndStore ?t doc1 ?u =
       (Inr (Failure (error_message (Error ''store unavailable'')
               ''Failed to embed and store documents'')),
        ?u\<lparr>calls := Suc (Suc (Suc (calls ?u)))\<rparr>)"
    by blast
  then have ru: "embedAndStore ?t doc1 ?u =
       (Inr (Failure ''store unavailable''), ?u\<lparr>calls := 3\<rparr>)"
    by (simp add: c error_message_def)
  have ix: "map id' (DOC_INDEX (snd (embedAndStore ?t doc1 ?e))) = [''doc1-1000-0'']"
    by code_simp
  show ?thesis
    by (intro conjI) (fact i0 iadm i1 iai ri u0 uadm u1 uai u2 ru tr rt ne ix)+
qed

section \<open>Deletion claims\<close>

text \<open>
  C8: when the lookup does not throw and the document id has no metadata record, or has a
  record without a list of vector ids, \<open>deleteDocumentVectors\<close> returns success with
  \<open>deletedCount = 0\<close> and changes nothing: the index, the key-value store (counter and
  metadata) and the log are as before; only the count of calls made has moved.
\<close>

theorem deleteDocumentVectors_unknown_document:
  assumes "faults e (calls e) = None"
    and "kv_lookup e DOC_METADATA docId = None
       \<or> (\<exists>d. kv_lookup e DOC_METADATA docId = Some (DocumentJson d) \<and> vectorIds d = None)"
  shows "deleteDocumentVectors docId e =
           (Inr \<lparr>success = True, deletedCount = 0, error = None\<rparr>, e\<lparr>calls := Suc (calls e)\<rparr>)"
  using assms
  by (auto simp: deleteDocumentVectors_def io_defs kv_get_json_absent kv_get_json_document)

theorem deleteDocumentVectors_unknown_document_witness:
  "faults env_shared (calls env_shared) = None
   \<and> kv_lookup env_shared DOC_METADATA ''unknown'' = None
   \<and> deleteDocumentVectors ''unknown'' env_shared =
       (Inr \<lparr>success = True, deletedCount = 0, error = None\<rparr>,
        env_shared\<lparr>calls := Suc (calls env_shared)\<rparr>)
   \<and> faults env_old (calls env_old) = None
   \<and> kv_lookup env_old DOC_METADATA ''old'' = Some (DocumentJson old_record)
   \<and> vectorIds old_record = None
   \<and> deleteDocumentVectors ''old'' env_old =
       (Inr \<lparr>success = True, deletedCount = 0, error = None\<rparr>,
        env_old\<lparr>calls := Suc (calls env_old)\<rparr>)"
proof -
  have f: "faults env_shared (calls env_shared) = None"
    and g: "faults env_old (calls env_old) = None"
    by (simp_all add: env_old_def env_shared_def)
  have k: "kv_lookup env_shared DOC_METADATA ''unknown'' = None"
    by (simp add: env_shared_def kv_lookup_def)
  have l: "kv_lookup env_old DOC_METADATA ''old'' = Some (DocumentJson old_record)"
    by (simp add: env_old_def env_shared_def kv_lookup_def)
  have v: "vectorIds old_record = None"
    by (simp add: old_record_def)
  from k have "kv_lookup env_shared DOC_METADATA ''unknown'' = None
       \<or> (\<exists>d. kv_lookup env_shared DOC_METADATA ''unknown'' = Some (DocumentJson d)
             \<and> vectorIds d = None)"
    by (rule disjI1)
  note a = deleteDocumentVectors_unknown_document [OF f this]
  from l v have "kv_lookup env_old DOC_METADATA ''old'' = None
       \<or> (\<exists>d. kv_lookup env_old DOC_METADATA ''old'' = Some (DocumentJson d)
             \<and> vectorIds d = None)"
    by blast
  note b = deleteDocumentVectors_unknown_document [OF g this]
  show ?thesis
    by (intro conjI) (fact f k a g l v b)+
qed

text \<open>
  C10: in the cleanup of one over-age document with a non-empty list of chunk ids, when
  \<open>deleteByIds\<close> throws (and the calls around it do not), the sweep goes on with the
  remaining keys: the metadata record is removed all the same, the index keeps the
  vectors, the count of removed vectors is not increased and \<open>updateVectorCount\<close> is not
  called, so the stored count is as before. In \<open>deleteDocumentVectors\<close> the same throw gives a failure result and leaves
  the metadata record, and the whole environment but the count of calls, as it was.
\<close>

theorem cleanup_removes_metadata_when_vector_removal_throws:
  shows "(faults e (calls e) = None
          \<and> kv_lookup e DOCUMENT_METADATA key = Some (DocumentJson d)
          \<and> uploadedAt d = Some t \<and> t < cutoff \<and> chunks d = Some ids \<and> ids \<noteq> []
          \<and> faults e (Suc (calls e)) = Some ex
          \<and> faults e (Suc (Suc (calls e))) = None \<longrightarrow>
            cleanup_document cutoff key n e =
              ((Inr (), n), remove_key DOCUMENT_METADATA key (e\<lparr>calls := calls e + 3\<rparr>))
            \<and> cleanup_loop cutoff (key # keys) n e =
                cleanup_loop cutoff keys n
                  (remove_key DOCUMENT_METADATA key (e\<lparr>calls := calls e + 3\<rparr>))
            \<and> kv_lookup (snd (cleanup_document cutoff key n e)) DOCUMENT_METADATA key = None
            \<and> DOC_INDEX (snd (cleanup_document cutoff key n e)) = DOC_INDEX e
            \<and> (key \<noteq> VECTOR_COUNT_KEY \<longrightarrow>
                 stored_count (snd (cleanup_document cutoff key n e)) = stored_count e))
       \<and> (faults e (calls e) = None
          \<and> kv_lookup e DOC_METADATA docId = Some (DocumentJson d')
          \<and> vectorIds d' = Some ids'
          \<and> faults e (Suc (calls e)) = Some ex \<longrightarrow>
            deleteDocumentVectors docId e =
              (Inr \<lparr>success = False, deletedCount = 0,
                    error = Some (error_message ex ''Failed to delete document vectors'')\<rparr>,
               e\<lparr>calls := Suc (Suc (calls e))\<rparr>))"
proof (intro conjI impI)
  assume a: "faults e (calls e) = None
          \<and> kv_lookup e DOCUMENT_METADATA key = Some (DocumentJson d)
          \<and> uploadedAt d = Some t \<and> t < cutoff \<and> chunks d = Some ids \<and> ids \<noteq> []
          \<and> faults e (Suc (calls e)) = Some ex
          \<and> faults e (Suc (Suc (calls e))) = None"
  then have r: "cleanup_document cutoff key n e =
              ((Inr (), n), remove_key DOCUMENT_METADATA key (e\<lparr>calls := calls e + 3\<rparr>))"
    using cleanup_vectors_fault [of e key d t cutoff ids ex n] by blast
  then show "cleanup_document cutoff key n e =
              ((Inr (), n), remove_key DOCUMENT_METADATA key (e\<lparr>calls := calls e + 3\<rparr>))" .
  show "cleanup_loop cutoff (key # keys) n e =
          cleanup_loop cutoff keys n
            (remove_key DOCUMENT_METADATA key (e\<lparr>calls := calls e + 3\<rparr>))"
    by (simp add: r)
  show "kv_lookup (snd (cleanup_document cutoff key n e)) DOCUMENT_METADATA key = None"
    by (simp add: r kv_lookup_remove_key)
  show "DOC_INDEX (snd (cleanup_document cutoff key n e)) = DOC_INDEX e"
    by (simp add: r remove_key_def)
  assume "key \<noteq> VECTOR_COUNT_KEY"
  then show "stored_count (snd (cleanup_document cutoff key n e)) = stored_count e"
    by (simp add: r stored_count_remove_key)
next
  assume "faults e (calls e) = None
          \<and> kv_lookup e DOC_METADATA docId = Some (DocumentJson d')
          \<and> vectorIds d' = Some ids'
          \<and> faults e (Suc (calls e)) = Some ex"
  then show "deleteDocumentVectors docId e =
              (Inr \<lparr>success = False, deletedCount = 0,
                    error = Some (error_message ex ''Failed to delete document vectors'')\<rparr>,
               e\<lparr>calls := Suc (Suc (calls e))\<rparr>)"
    using delete_vectors_fault [of e docId d' ids' ex] by blast
qed

theorem cleanup_removes_metadata_when_vector_removal_throws_witness:
  "faults (failing_at 1 env_old) (calls (failing_at 1 env_old)) = None
   \<and> kv_lookup (failing_at 1 env_old) DOCUMENT_METADATA ''old'' = Some (DocumentJson old_record)
   \<and> uploadedAt old_record = Some 0 \<and> (0::int) < 864000000
   \<and> chunks old_record = Some [''old-0'', ''old-1''] \<and> [''old-0'', ''old-1''] \<noteq> []
   \<and> faults (failing_at 1 env_old) (Suc (calls (failing_at 1 env_old)))
        = Some (Error ''store unavailable'')
   \<and> faults (failing_at 1 env_old) (Suc (Suc (calls (failing_at 1 env_old)))) = None
   \<and> fst (cleanup_document 864000000 ''old'' 0 (failing_at 1 env_old)) = (Inr (), 0)
   \<and> kv_lookup (snd (cleanup_document 864000000 ''old'' 0 (failing_at 1 env_old)))
        DOCUMENT_METADATA ''old'' = None
   \<and> DOC_INDEX (snd (cleanup_document 864000000 ''old'' 0 (failing_at 1 env_old)))
        = DOC_INDEX (failing_at 1 env_old)
   \<and> ''old'' \<noteq> VECTOR_COUNT_KEY
   \<and> stored_count (snd (cleanup_document 864000000 ''old'' 0 (failing_at 1 env_old)))
        = stored_count (failing_at 1 env_old)
   \<and> fst (cleanupOldVectors 30 (failing_at 2 env_old)) = 0
   \<and> kv_lookup (snd (cleanupOldVectors 30 (failing_at 2 env_old))) DOCUMENT_METADATA ''old''
        = None
   \<and> map id' (DOC_INDEX (snd (cleanupOldVectors 30 (failing_at 2 env_old))))
        = [''old-0'', ''old-1'']
   \<and> faults (failing_at 7 (ingested env_shared)) (calls (failing_at 7 (ingested env_shared)))
        = None
   \<and> kv_lookup (failing_at 7 (ingested env_shared)) DOC_METADATA ''doc1'' =
        Some (DocumentJson \<lparr>name = ''Notes'', type = ''text'', chunksCount = 1,
          uploadedAt = Some 1000, vectorIds = Some [''doc1-1000-0''], chunks = None\<rparr>)
   \<and> faults (failing_at 7 (ingested env_shared))
        (Suc (calls (failing_at 7 (ingested env_shared)))) = Some (Error ''store unavailable'')
   \<and> deleteDocumentVectors ''doc1'' (failing_at 7 (ingested env_shared)) =
        (Inr \<lparr>success = False, deletedCount = 0, error = Some ''store unavailable''\<rparr>,
         (failing_at 7 (ingested env_shared))
           \<lparr>calls := Suc (Suc (calls (failing_at 7 (ingested env_shared))))\<rparr>)"
proof -
  let ?e = "failing_at 1 env_old"
  let ?g = "failing_at 7 (ingested env_shared)"
  let ?d = "\<lparr>name = ''Notes'', type = ''text'', chunksCount = 1,
          uploadedAt = Some 1000, vectorIds = Some [''doc1-1000-0''], chunks = None\<rparr>"
  have e0: "faults ?e (calls ?e) = None"
    and e1: "faults ?e (Suc (calls ?e)) = Some (Error ''store unavailable'')"
    and e2: "faults ?e (Suc (Suc (calls ?e))) = None"
    by (simp_all add: failing_at_def env_old_def env_shared_def)
  have k: "kv_lookup ?e DOCUMENT_METADATA ''old'' = Some (DocumentJson old_record)"
    by (simp add: failing_at_def env_old_def env_shared_def kv_lookup_def)
  have u: "uploadedAt old_record = Some 0" and lt: "(0::int) < 864000000"
    and c: "chunks old_record = Some [''old-0'', ''old-1'']"
    and ne: "[''old-0'', ''old-1''] \<noteq> []"
    by (simp_all add: old_record_def)
  have key: "''old'' \<noteq> VECTOR_COUNT_KEY"
    by (simp add: VECTOR_COUNT_KEY_def)
  note t1 = cleanup_removes_metadata_when_vector_removal_throws
    [where e = ?e and key = "''old''" and d = old_record and t = 0 and cutoff = 864000000
       and ids = "[''old-0'', ''old-1'']" and ex = "Error ''store unavailable''" and n = 0]
  from t1 e0 k u lt c ne e1 e2
  have r: "cleanup_document 864000000 ''old'' 0 ?e =
              ((Inr (), 0), remove_key DOCUMENT_METADATA ''old'' (?e\<lparr>calls := calls ?e + 3\<rparr>))"
    and r2: "kv_lookup (snd (cleanup_document 864000000 ''old'' 0 ?e))
               DOCUMENT_METADATA ''old'' = None"
    and r3: "DOC_INDEX (snd (cleanup_document 864000000 ''old'' 0 ?e)) = DOC_INDEX ?e"
    and r4': "''old'' \<noteq> VECTOR_COUNT_KEY \<longrightarrow>
       stored_count (snd (cleanup_document 864000000 ''old'' 0 ?e)) = stored_count ?e"
    by blast+
  from r have r1: "fst (cleanup_document 864000000 ''old'' 0 ?e) = (Inr (), 0)"
    by simp
  from r4' key
  have r4: "stored_count (snd (cleanup_document 864000000 ''old'' 0 ?e)) = stored_count ?e"
    by blast
  have s1: "fst (cleanupOldVectors 30 (failing_at 2 env_old)) = 0"
    and s2: "kv_lookup (snd (cleanupOldVectors 30 (failing_at 2 env_old)))
               DOCUMENT_METADATA ''old'' = None"
    and s3: "map id' (DOC_INDEX (snd (cleanupOldVectors 30 (failing_at 2 env_old))))
               = [''old-0'', ''old-1'']"
    by code_simp+
  have cg: "calls (ingested env_shared) = 6"
    by code_simp
  have g0: "faults ?g (calls ?g) = None"
    and g1: "faults ?g (Suc (calls ?g)) = Some (Error ''store unavailable'')"
    by (simp_all add: failing_at_def cg)
  have "kv_lookup (ingested env_shared) DOC_METADATA ''doc1'' = Some (DocumentJson ?d)"
    by code_simp
  then have kg: "kv_lookup ?g DOC_METADATA ''doc1'' = Some (DocumentJson ?d)"
    by (simp add: failing_at_def)
  have v: "vectorIds ?d = Some [''doc1-1000-0'']"
    by simp
  note t2 = cleanup_removes_metadata_when_vector_removal_throws
    [where e = ?g and ex = "Error ''store unavailable''" and docId = "''doc1''"
       and d' = ?d and ids' = "[''doc1-1000-0'']"]
  from t2 g0 kg v g1
  have "deleteDocumentVectors ''doc1'' ?g =
        (Inr \<lparr>success = False, deletedCount = 0,
              error = Some (error_message (Error ''store unavailable'')
                        ''Failed to delete document vectors'')\<rparr>,
         ?g\<lparr>calls := Suc (Suc (calls ?g))\<rparr>)"
    by blast
  then have d: "deleteDocumentVectors ''doc1'' ?g =
        (Inr \<lparr>success = False, deletedCount = 0, error = Some ''store unavailable''\<rparr>,
         ?g\<lparr>calls := Suc (Suc (calls ?g))\<rparr>)"
    by (simp add: error_message_def)
  show ?thesis
    by (intro conjI) (fact e0 k u lt c ne e1 e2 r1 r2 r3 key r4 s1 s2 s3 g0 kg g1 d)+
qed

section \<open>Round trip\<close>

text \<open>
  C9, as the code has it: for a document whose id is not the key of the counter, and a
  stored count \<open>c\<close> that is not negative, an ingestion that succeeds followed by a
  deletion of that document that succeeds, on the key-value store as the ingestion left
  it, brings the stored count back to \<open>c\<close>. The ingestion adds the number of vectors
  stored, which is the number of embeddings that the model returned (one for each of the
  \<open>N\<close> chunks when the model answers as its interface says), and the deletion subtracts
  the length of the list of vector ids in the metadata record, which is the same number.
\<close>

theorem ingest_then_delete_restores_count:
  assumes key: "documentId md \<noteq> VECTOR_COUNT_KEY"
    and count: "stored_count e = Num c" and nonneg: "0 \<le> c"
    and ingest: "embedAndStore texts md e = (Inr (Success ids), e1)"
    and same: "KV e2 = KV e1" "bound_to e2 = bound_to e1"
    and delete: "deleteDocumentVectors (documentId md) e2 = (Inr r, e3)" and ok: "success r"
  shows "stored_count e1 = Num (c + int (length ids))
       \<and> deletedCount r = int (length ids)
       \<and> stored_count e3 = Num c
       \<and> (\<exists>data. AI e (allChunks_of texts md e) = Data data \<and> length ids = length data)"
proof -
  from ingest obtain data where ai: "AI e (allChunks_of texts md e) = Data data"
    and ids: "ids = map id' (vectors_of texts md e data)"
    and e1: "e1 = put_document (documentId md) (document_of texts md e data)
        (put_count (Math_max 0 (js_add (stored_count e) (int (length data))))
          (e\<lparr>calls := calls e + 6,
             DOC_INDEX := upsert (vectors_of texts md e data) (DOC_INDEX e),
             console := console e @
               [\<lparr>log_timestamp = now e,
                 log_count = Math_max 0 (js_add (stored_count e) (int (length data))),
                 log_delta = Some (int (length data)),
                 log_reason = ''upsert_document_'' @ documentId md\<rparr>]\<rparr>))"
    by (rule ingest_success_inv)
  have len: "length ids = length data" by (simp add: ids)
  have c1: "stored_count e1 = Num (c + int (length ids))"
    using key count nonneg by (simp add: e1 stored_count_put_document len)
  have doc1: "kv_lookup e1 DOC_METADATA (documentId md)
               = Some (DocumentJson (document_of texts md e data))"
    unfolding e1 by (rule kv_lookup_put_document)
  have doc2: "kv_lookup e2 DOC_METADATA (documentId md)
               = Some (DocumentJson (document_of texts md e data))"
    using doc1 kv_lookup_cong [OF same] by simp
  have v: "vectorIds (document_of texts md e data) = Some ids"
    by (simp add: ids)
  from delete_success_inv [OF delete ok doc2 v]
  have r: "deletedCount r = int (length ids)"
    and e3: "e3 = remove_key DOC_METADATA (documentId md)
              (put_count (Math_max 0 (js_add (stored_count e2) (- int (length ids))))
                (e2\<lparr>calls := calls e2 + 5,
                   DOC_INDEX := filter (\<lambda>v. id' v \<notin> set ids) (DOC_INDEX e2),
                   console := console e2 @
                     [\<lparr>log_timestamp = now e2,
                       log_count = Math_max 0 (js_add (stored_count e2) (- int (length ids))),
                       log_delta = Some (- int (length ids)),
                       log_reason = ''delete_document_'' @ documentId md\<rparr>]\<rparr>))"
    by simp_all
  have c2: "stored_count e2 = Num (c + int (length ids))"
    using c1 stored_count_cong [OF same] by simp
  have c3: "stored_count e3 = Num c"
    using key nonneg by (simp add: e3 stored_count_remove_key c2)
  from c1 r c3 ai len show ?thesis by blast
qed

theorem ingest_then_delete_restores_count_witness:
  "documentId doc1 \<noteq> VECTOR_COUNT_KEY
   \<and> stored_count (env_count 85) = Num 85 \<and> (0::int) \<le> 85
   \<and> fst (embedAndStore [''Hello. World!''] doc1 (env_count 85)) =
        Inr (Success [''doc1-1000-0''])
   \<and> fst (deleteDocumentVectors (documentId doc1)
             (snd (embedAndStore [''Hello. World!''] doc1 (env_count 85)))) =
        Inr \<lparr>success = True, deletedCount = 1, error = None\<rparr>
   \<and> stored_count (snd (embedAndStore [''Hello. World!''] doc1 (env_count 85))) = Num 86
   \<and> stored_count (snd (deleteDocumentVectors (documentId doc1)
        (snd (embedAndStore [''Hello. World!''] doc1 (env_count 85))))) = Num 85"
proof -
  let ?e = "env_count 85"
  let ?e1 = "snd (embedAndStore [''Hello. World!''] doc1 ?e)"
  let ?r = "\<lparr>success = True, deletedCount = 1, error = None\<rparr>"
  let ?e3 = "snd (deleteDocumentVectors (documentId doc1) ?e1)"
  have key: "documentId doc1 \<noteq> VECTOR_COUNT_KEY"
    by (simp add: doc1_def VECTOR_COUNT_KEY_def)
  have s: "stored_count ?e = Num 85"
    by (simp add: stored_count_def env_count_def env_shared_def kv_lookup_def)
  have n: "(0::int) \<le> 85" by simp
  have i: "fst (embedAndStore [''Hello. World!''] doc1 ?e) = Inr (Success [''doc1-1000-0''])"
    by code_simp
  then have ingest: "embedAndStore [''Hello. World!''] doc1 ?e =
      (Inr (Success [''doc1-1000-0'']), ?e1)"
    by (metis prod.collapse)
  have d: "fst (deleteDocumentVectors (documentId doc1) ?e1) = Inr ?r"
    by code_simp
  then have delete: "deleteDocumentVectors (documentId doc1) ?e1 = (Inr ?r, ?e3)"
    by (metis prod.collapse)
  have ok: "success ?r" by simp
  from ingest_then_delete_restores_count [OF key s n ingest refl refl delete ok]
  have c1: "stored_count ?e1 = Num 86" and c3: "stored_count ?e3 = Num 85"
    by simp_all
  show ?thesis
    by (intro conjI) (fact key s n i d c1 c3)+
qed

text \<open>
  C9 as stated, for every document and every starting value of the counter, does not hold.
  A document whose id is the key of the counter overwrites the counter with its metadata
  record; the deletion then reads no number, and removes the key: from a count of 5 the
  round trip ends with an absent counter, which reads as 0. And from a stored count of -5
  the clamping at zero gives 0 after the ingestion and 0 after the deletion.
\<close>

theorem round_trip_counterexample:
  "stored_count (env_count 5) = Num 5
   \<and> fst (embedAndStore [''Hello.''] doc_reserved (env_count 5)) =
        Inr (Success [''__vector_count__-1000-0''])
   \<and> fst (deleteDocumentVectors (documentId doc_reserved)
             (snd (embedAndStore [''Hello.''] doc_reserved (env_count 5)))) =
        Inr \<lparr>success = True, deletedCount = 1, error = None\<rparr>
   \<and> stored_count (snd (deleteDocumentVectors (documentId doc_reserved)
        (snd (embedAndStore [''Hello.''] doc_reserved (env_count 5))))) = Num 0
   \<and> stored_count (snd (deleteDocumentVectors (documentId doc_reserved)
        (snd (embedAndStore [''Hello.''] doc_reserved (env_count 5)))))
        \<noteq> stored_count (env_count 5)
   \<and> stored_count (env_count (- 5)) = Num (- 5)
   \<and> fst (embedAndStore [''Hello.''] doc1 (env_count (- 5))) = Inr (Success [''doc1-1000-0''])
   \<and> fst (deleteDocumentVectors (documentId doc1)
             (snd (embedAndStore [''Hello.''] doc1 (env_count (- 5))))) =
        Inr \<lparr>success = True, deletedCount = 1, error = None\<rparr>
   \<and> stored_count (snd (deleteDocumentVectors (documentId doc1)
        (snd (embedAndStore [''Hello.''] doc1 (env_count (- 5)))))) = Num 0
   \<and> stored_count (snd (deleteDocumentVectors (documentId doc1)
        (snd (embedAndStore [''Hello.''] doc1 (env_count (- 5))))))
        \<noteq> stored_count (env_count (- 5))"
  by code_simp

section \<open>Cleanup of ingested documents\<close>

text \<open>
  C1 says that the sweep removes, for each over-age document, the vectors listed in its
  metadata record, and in particular those of a document written by the ingestion
  pipeline. \<open>embedAndStore\<close> writes the list as \<open>vectorIds\<close>, into the namespace
  \<open>DOC_METADATA\<close>; \<open>cleanupOldVectors\<close> reads the namespace \<open>DOCUMENT_METADATA\<close> and takes
  the ids from \<open>chunks\<close>. Forty days after the ingestion of one document, where both
  bindings name one namespace, the sweep reports 0 vectors removed, leaves the vector in
  the index and the count at 1, and removes the metadata record, the only list of the
  document's vectors; \<open>deleteDocumentVectors\<close> in the same state removes the vector and
  brings the count to 0. Where the bindings name two namespaces the sweep does not see
  the document: vector, count and record stay.
\<close>

theorem cleanup_misses_ingested_document:
  "kv_lookup (ingested env_shared) DOCUMENT_METADATA ''doc1'' =
     Some (DocumentJson \<lparr>name = ''Notes'', type = ''text'', chunksCount = 1,
       uploadedAt = Some 1000, vectorIds = Some [''doc1-1000-0''], chunks = None\<rparr>)
   \<and> map id' (DOC_INDEX (ingested env_shared)) = [''doc1-1000-0'']
   \<and> stored_count (ingested env_shared) = Num 1
   \<and> now (ingested env_shared) - 30 * 86400000 > 1000
   \<and> fst (cleanupOldVectors 30 (ingested env_shared)) = 0
   \<and> map id' (DOC_INDEX (snd (cleanupOldVectors 30 (ingested env_shared)))) = [''doc1-1000-0'']
   \<and> stored_count (snd (cleanupOldVectors 30 (ingested env_shared))) = Num 1
   \<and> kv_lookup (snd (cleanupOldVectors 30 (ingested env_shared))) DOC_METADATA ''doc1'' = None
   \<and> fst (deleteDocumentVectors ''doc1'' (ingested env_shared)) =
        Inr \<lparr>success = True, deletedCount = 1, error = None\<rparr>
   \<and> DOC_INDEX (snd (deleteDocumentVectors ''doc1'' (ingested env_shared))) = []
   \<and> stored_count (snd (deleteDocumentVectors ''doc1'' (ingested env_shared))) = Num 0
   \<and> fst (cleanupOldVectors 30 (ingested env_separate)) = 0
   \<and> map id' (DOC_INDEX (snd (cleanupOldVectors 30 (ingested env_separate))))
        = [''doc1-1000-0'']
   \<and> stored_count (snd (cleanupOldVectors 30 (ingested env_separate))) = Num 1
   \<and> kv_lookup (snd (cleanupOldVectors 30 (ingested env_separate))) DOC_METADATA ''doc1'' =
        Some (DocumentJson \<lparr>name = ''Notes'', type = ''text'', chunksCount = 1,
          uploadedAt = Some 1000, vectorIds = Some [''doc1-1000-0''], chunks = None\<rparr>)"
  by code_simp

end
